theory Spec2Isabelle
  imports
    Complex_Main
    "HOL-Library.List_Lexorder"
    "HOL-Library.Char_ord"
    "HOL-Library.Product_Lexorder"
begin

section \<open>Air-quality ETL flow (src/flows/etl_flow.py)\<close>

text \<open>
  The flow reads a semicolon-separated file into a frame of text cells, cleans it
  (\<open>transform_data\<close>), writes four tables into an SQLite file
  (\<open>create_database_tables\<close>) and inspects them (\<open>validate_database\<close>).

  Modelling decisions, all of them about the libraries the flow calls:
  \<^item> a frame is the list of its rows, in order; a row is a record whose fields are the
    fourteen columns under the names that step 1 gives them. A file with fewer columns
    makes step 2 fail with a key error before any row is looked at, and the further
    columns of a wider file are never read: neither is in the model;
  \<^item> a text cell of a frame read with \<open>dtype=str\<close> is a \<open>string option\<close>,
    \<open>None\<close> being the missing value;
  \<^item> a float is its exact decimal value, or an infinity, or NaN, which is what pandas
    takes for the missing value of a float column. Rounding to binary64, and with it
    the overflow of a large literal to an infinity, is not modelled;
  \<^item> strings are byte strings, ordered bytewise; digits and white space outside ASCII,
    which Python reads as digits and white space, are not modelled;
  \<^item> the clock, the file system and the reading of an unquoted name by SQLite are
    arguments of the flow.
\<close>

subsection \<open>Cells and rows\<close>

datatype pyfloat = Finite rat | PosInf | NegInf | NaN

type_synonym cell = "string option"

text \<open>One row of the frame. The raw frame has text in \<open>year\<close> and \<open>value\<close>; the
  transformed frame has floats there.\<close>

record ('y, 'v) row =
  "section" :: cell
  indicator :: cell
  unit :: cell
  code :: cell
  substance :: cell
  source_type :: cell
  emission_type :: cell
  location_level :: cell
  region :: cell
  municipal_district :: cell
  municipal_formation :: cell
  oktmo_code :: cell
  year :: 'y
  "value" :: 'v

type_synonym raw_row = "(cell, cell) row"
type_synonym clean_row = "(pyfloat, pyfloat) row"

datatype error =
    ValueError string    \<comment> \<open>could not convert string to float\<close>
  | FileNotFoundError string
  | OperationalError string    \<comment> \<open>an SQL statement that SQLite refuses\<close>

subsection \<open>Step 1: renaming the columns\<close>

definition new_names :: "string list" where
  "new_names =
     [''section'', ''indicator'', ''unit'', ''code'', ''substance'',
      ''source_type'', ''emission_type'', ''location_level'', ''region'',
      ''municipal_district'', ''municipal_formation'', ''oktmo_code'',
      ''year'', ''value'']"

text \<open>\<^verbatim>\<open>df.rename(columns=dict(zip(df.columns, new_names)))\<close>: \<open>zip\<close> stops at the
  shorter list, a later pair of \<open>dict\<close> overrides an earlier one with the same key,
  and a column that is not a key keeps its name.\<close>

definition rename_columns :: "string list \<Rightarrow> string list" where
  "rename_columns cols =
     (let d = map_of (rev (zip cols new_names))
      in map (\<lambda>c. case d c of Some n \<Rightarrow> n | None \<Rightarrow> c) cols)"

subsection \<open>Parsing a float from text\<close>

text \<open>
  \<^verbatim>\<open>astype('float')\<close> on a column of Python strings converts each string as
  \<^verbatim>\<open>float(s)\<close> does, and raises \<open>ValueError\<close> at the first string that is not a
  float literal. The literal, after leading and trailing white space (blank, tab, line
  feed, vertical tab, form feed, carriage return) is removed:
  an optional sign, then \<open>inf\<close>, \<open>infinity\<close> or \<open>nan\<close> in any letter case, or
  digits with at most one point and at least one digit, and an optional exponent.
  Underscores may separate digits.
\<close>

definition is_space :: "char \<Rightarrow> bool" where
  "is_space c = (let n = (of_char c :: nat) in (9 \<le> n \<and> n \<le> 13) \<or> n = 32)"

definition is_digit :: "char \<Rightarrow> bool" where
  "is_digit c = (let n = (of_char c :: nat) in 48 \<le> n \<and> n \<le> 57)"

definition lower :: "char \<Rightarrow> char" where
  "lower c =
     (case map_of (zip ''ABCDEFGHIJKLMNOPQRSTUVWXYZ'' ''abcdefghijklmnopqrstuvwxyz'') c of
        Some l \<Rightarrow> l
      | None \<Rightarrow> c)"

definition strip :: "string \<Rightarrow> string" where
  "strip s = rev (dropWhile is_space (rev (dropWhile is_space s)))"

text \<open>The underscores are checked and removed before the number is read: an underscore
  must follow a digit and be followed by a digit. \<open>prev\<close> is the character before,
  \<open>None\<close> at the start.\<close>

fun remove_underscores :: "char option \<Rightarrow> string \<Rightarrow> string option" where
  "remove_underscores prev [] =
     (if prev = Some CHR ''_'' then None else Some [])"
| "remove_underscores prev (c # cs) =
     (if c = CHR ''_'' then
        (case prev of
           None \<Rightarrow> None
         | Some p \<Rightarrow> if is_digit p then remove_underscores (Some c) cs else None)
      else if prev = Some CHR ''_'' \<and> \<not> is_digit c then None
      else map_option ((#) c) (remove_underscores (Some c) cs))"

definition digits_val :: "string \<Rightarrow> nat" where
  "digits_val ds = foldl (\<lambda>a c. 10 * a + (of_char c - 48)) 0 ds"

definition split_sign :: "string \<Rightarrow> bool \<times> string" where
  "split_sign s =
     (case s of
        [] \<Rightarrow> (False, [])
      | c # t \<Rightarrow> if c = CHR ''-'' then (True, t)
                else if c = CHR ''+'' then (False, t)
                else (False, s))"

text \<open>The exponent part: nothing, or \<open>e\<close> or \<open>E\<close>, an optional sign and at least one
  digit, up to the end of the string.\<close>

definition parse_exponent :: "string \<Rightarrow> int option" where
  "parse_exponent s =
     (case s of
        [] \<Rightarrow> Some 0
      | c # t \<Rightarrow>
          if c = CHR ''e'' \<or> c = CHR ''E'' then
            (let (neg, u) = split_sign t
             in if u \<noteq> [] \<and> list_all is_digit u
                then Some (if neg then - int (digits_val u) else int (digits_val u))
                else None)
          else None)"

definition scale10 :: "nat \<Rightarrow> int \<Rightarrow> rat" where
  "scale10 m e = (if 0 \<le> e then of_nat m * 10 ^ nat e else of_nat m / 10 ^ nat (- e))"

definition parse_decimal :: "string \<Rightarrow> rat option" where
  "parse_decimal s =
     (let d1 = takeWhile is_digit s;
          r1 = dropWhile is_digit s;
          (d2, r2) =
            (case r1 of
               [] \<Rightarrow> ([], [])
             | c # t \<Rightarrow> if c = CHR ''.'' then (takeWhile is_digit t, dropWhile is_digit t)
                       else ([], r1))
      in if d1 = [] \<and> d2 = [] then None
         else (case parse_exponent r2 of
                 None \<Rightarrow> None
               | Some e \<Rightarrow> Some (scale10 (digits_val (d1 @ d2)) (e - int (length d2)))))"

definition py_float :: "string \<Rightarrow> pyfloat option" where
  "py_float s =
     (case remove_underscores None (strip s) of
        None \<Rightarrow> None
      | Some t \<Rightarrow>
          (let (neg, u) = split_sign t;
               w = map lower u
           in if w = ''inf'' \<or> w = ''infinity'' then Some (if neg then NegInf else PosInf)
              else if w = ''nan'' then Some NaN
              else (case parse_decimal u of
                      None \<Rightarrow> None
                    | Some q \<Rightarrow> Some (Finite (if neg then - q else q)))))"

subsection \<open>transform\_data\<close>

text \<open>Step 2, \<^verbatim>\<open>df.dropna(subset=['value', 'section', 'code', 'substance'])\<close>.\<close>

definition dropna :: "raw_row list \<Rightarrow> raw_row list" where
  "dropna df =
     filter (\<lambda>r. value r \<noteq> None \<and> section r \<noteq> None \<and> code r \<noteq> None \<and> substance r \<noteq> None) df"

text \<open>Step 3. \<^verbatim>\<open>dd.to_numeric(..., errors='coerce')\<close> turns what it cannot read into
  NaN. No property below depends on which strings pandas reads as numbers, so its reader
  is the parameter \<open>tn\<close>.\<close>

definition to_numeric :: "(string \<Rightarrow> pyfloat option) \<Rightarrow> cell \<Rightarrow> pyfloat" where
  "to_numeric tn c =
     (case c of
        None \<Rightarrow> NaN
      | Some s \<Rightarrow> (case tn s of None \<Rightarrow> NaN | Some v \<Rightarrow> v))"

text \<open>\<^verbatim>\<open>.str.replace(',', '.')\<close> replaces every comma; a missing cell stays missing.\<close>

definition str_replace :: "cell \<Rightarrow> cell" where
  "str_replace c = map_option (map (\<lambda>x. if x = CHR '','' then CHR ''.'' else x)) c"

definition astype_float :: "cell \<Rightarrow> error + pyfloat" where
  "astype_float c =
     (case c of
        None \<Rightarrow> Inr NaN
      | Some s \<Rightarrow> (case py_float s of None \<Rightarrow> Inl (ValueError s) | Some v \<Rightarrow> Inr v))"

definition convert_row :: "(string \<Rightarrow> pyfloat option) \<Rightarrow> raw_row \<Rightarrow> error + clean_row" where
  "convert_row tn r =
     (case astype_float (str_replace (value r)) of
        Inl e \<Rightarrow> Inl e
      | Inr v \<Rightarrow>
          Inr \<lparr> section = section r, indicator = indicator r, unit = unit r, code = code r,
                substance = substance r, source_type = source_type r,
                emission_type = emission_type r, location_level = location_level r,
                region = region r, municipal_district = municipal_district r,
                municipal_formation = municipal_formation r, oktmo_code = oktmo_code r,
                year = to_numeric tn (year r), value = v \<rparr>)"

text \<open>Step 4, \<^verbatim>\<open>compute()\<close>: the conversion of the whole column, which raises at the
  first cell that does not convert.\<close>

fun compute :: "(string \<Rightarrow> pyfloat option) \<Rightarrow> raw_row list \<Rightarrow> error + clean_row list" where
  "compute tn [] = Inr []"
| "compute tn (r # rs) =
     (case convert_row tn r of
        Inl e \<Rightarrow> Inl e
      | Inr r' \<Rightarrow> (case compute tn rs of Inl e \<Rightarrow> Inl e | Inr rs' \<Rightarrow> Inr (r' # rs')))"

text \<open>Step 5. \<^verbatim>\<open>!=\<close> on floats is true whenever a side is NaN.\<close>

definition float_ne :: "pyfloat \<Rightarrow> pyfloat \<Rightarrow> bool" where
  "float_ne a b = (a = NaN \<or> b = NaN \<or> a \<noteq> b)"

definition sentinel :: pyfloat where
  "sentinel = Finite 9999999999"

definition excluded_substances :: "cell list" where
  "excluded_substances = [Some ''CD'', Some ''ND'']"

definition transform_data :: "(string \<Rightarrow> pyfloat option) \<Rightarrow> raw_row list \<Rightarrow> error + clean_row list" where
  "transform_data tn df =
     (case compute tn (dropna df) of
        Inl e \<Rightarrow> Inl e
      | Inr df_final \<Rightarrow>
          Inr (filter (\<lambda>r. substance r \<notin> set excluded_substances)
                 (filter (\<lambda>r. float_ne (value r) sentinel) df_final)))"

subsection \<open>The SQLite file\<close>

text \<open>
  A stored value is NULL, a text or a number; \<open>to_sql\<close> writes a missing cell and a NaN
  as NULL. A table has the names and the declared types of its columns, and its rows.
  A column is declared with a text type or with a numeric type: \<open>TEXT\<close> and \<open>REAL\<close>
  are what \<open>to_sql\<close> declares for a column of strings and for a column of floats
  (columns declared without a type or as \<open>BLOB\<close> are not in the model). Names are
  compared as they are written: a file with two names that differ by the case of their
  letters only is not in the model. The file holds its tables and its indexes, each
  index as the triple (table, index name, column) of the source.
\<close>

datatype sqlval = SqlNull | SqlText string | SqlReal pyfloat

datatype affinity = TextAffinity | NumericAffinity

record table =
  col_names :: "string list"
  col_types :: "affinity list"
  rows :: "sqlval list list"

record database =
  tables :: "(string \<times> table) list"
  indexes :: "(string \<times> string \<times> string) list"

definition sql_text :: "cell \<Rightarrow> sqlval" where
  "sql_text c = (case c of None \<Rightarrow> SqlNull | Some s \<Rightarrow> SqlText s)"

definition sql_real :: "pyfloat \<Rightarrow> sqlval" where
  "sql_real v = (if v = NaN then SqlNull else SqlReal v)"

text \<open>\<^verbatim>\<open>to_sql(name, conn, if_exists='replace', index=False)\<close>: a table of that name is
  dropped, and its indexes with it, then the table is created and filled. (A file in
  which an index or a view bears the name of the table, where the creation fails, is
  outside the model.)\<close>

definition to_sql :: "string \<Rightarrow> table \<Rightarrow> database \<Rightarrow> database" where
  "to_sql name t db =
     \<lparr> tables = filter (\<lambda>(n, _). n \<noteq> name) (tables db) @ [(name, t)],
       indexes = filter (\<lambda>(tn, _, _). tn \<noteq> name) (indexes db) \<rparr>"

text \<open>\<^verbatim>\<open>CREATE INDEX IF NOT EXISTS idx ON table(column)\<close> inside \<^verbatim>\<open>try\<close>: nothing
  happens when an index of that name exists; the statement fails, which the source
  logs as a warning and passes over, when a table has that name or when the table or the
  column does not exist.\<close>

definition create_index_if_not_exists :: "string \<times> string \<times> string \<Rightarrow> database \<Rightarrow> database" where
  "create_index_if_not_exists ix db =
     (case ix of (tn, idx_name, column) \<Rightarrow>
        if idx_name \<in> set (map (\<lambda>(_, n, _). n) (indexes db)) \<or> idx_name \<in> set (map fst (tables db))
        then db
        else (case map_of (tables db) tn of
                None \<Rightarrow> db
              | Some t \<Rightarrow>
                  if column \<in> set (col_names t)
                  then db\<lparr>indexes := indexes db @ [(tn, idx_name, column)]\<rparr>
                  else db))"

text \<open>The list \<^verbatim>\<open>indexes\<close> of the source.\<close>

definition index_list :: "(string \<times> string \<times> string) list" where
  "index_list =
     [(''air_emissions'', ''idx_air_year'', ''year''),
      (''air_emissions'', ''idx_air_code'', ''code''),
      (''air_emissions'', ''idx_air_substance'', ''substance''),
      (''air_emissions'', ''idx_air_section'', ''section''),
      (''air_emissions'', ''idx_air_oktmo'', ''oktmo_code''),
      (''indicator_codes'', ''idx_indicator_code'', ''code''),
      (''substance_types'', ''idx_substance'', ''substance''),
      (''location_codes'', ''idx_location_oktmo'', ''oktmo_code'')]"

definition create_indexes :: "database \<Rightarrow> database" where
  "create_indexes db = foldl (\<lambda>d ix. create_index_if_not_exists ix d) db index_list"

subsection \<open>Frame operations of the loader\<close>

text \<open>\<^verbatim>\<open>drop_duplicates\<close> keeps the first row of each key, in the order of the frame;
  \<open>seen\<close> holds the keys met so far. Two missing cells are the same key.\<close>

fun drop_duplicates_from :: "'k list \<Rightarrow> ('a \<Rightarrow> 'k) \<Rightarrow> 'a list \<Rightarrow> 'a list" where
  "drop_duplicates_from seen key [] = []"
| "drop_duplicates_from seen key (x # xs) =
     (if key x \<in> set seen then drop_duplicates_from seen key xs
      else x # drop_duplicates_from (key x # seen) key xs)"

definition drop_duplicates :: "('a \<Rightarrow> 'k) \<Rightarrow> 'a list \<Rightarrow> 'a list" where
  "drop_duplicates key xs = drop_duplicates_from [] key xs"

text \<open>\<^verbatim>\<open>sort_values(column)\<close> sorts ascending with the missing cells last. The order
  among rows of the same key is whatever the sorting algorithm of the library leaves;
  the model takes the stable one, and nothing below depends on it.\<close>

definition na_last :: "cell \<Rightarrow> bool \<times> string" where
  "na_last c = (case c of None \<Rightarrow> (True, []) | Some s \<Rightarrow> (False, s))"

definition sort_values :: "('a \<Rightarrow> cell) \<Rightarrow> 'a list \<Rightarrow> 'a list" where
  "sort_values key xs = sort_key (\<lambda>x. na_last (key x)) xs"

subsection \<open>create\_database\_tables\<close>

definition air_emissions_df :: "clean_row list \<Rightarrow> table" where
  "air_emissions_df df_final =
     \<lparr> col_names = [''section'', ''code'', ''substance'', ''value'', ''oktmo_code'', ''year''],
       col_types = [TextAffinity, TextAffinity, TextAffinity, NumericAffinity, TextAffinity,
                    NumericAffinity],
       rows = map (\<lambda>r. [sql_text (section r), sql_text (code r), sql_text (substance r),
                         sql_real (value r), sql_text (oktmo_code r), sql_real (year r)])
                df_final \<rparr>"

definition indicator_data :: "clean_row list \<Rightarrow> (cell \<times> cell) list" where
  "indicator_data df_final =
     sort_values fst (drop_duplicates id (map (\<lambda>r. (code r, indicator r)) df_final))"

definition substance_data :: "clean_row list \<Rightarrow> (cell \<times> cell) list" where
  "substance_data df_final =
     sort_values fst (drop_duplicates fst (map (\<lambda>r. (substance r, source_type r)) df_final))"

definition location_data :: "clean_row list \<Rightarrow> (cell \<times> cell \<times> cell \<times> cell) list" where
  "location_data df_final =
     sort_values fst
       (drop_duplicates id
          (map (\<lambda>r. (oktmo_code r, municipal_formation r, municipal_district r, region r))
             df_final))"

definition indicator_table :: "clean_row list \<Rightarrow> table" where
  "indicator_table df_final =
     \<lparr> col_names = [''code'', ''indicator''],
       col_types = [TextAffinity, TextAffinity],
       rows = map (\<lambda>(c, i). [sql_text c, sql_text i]) (indicator_data df_final) \<rparr>"

definition substance_table :: "clean_row list \<Rightarrow> table" where
  "substance_table df_final =
     \<lparr> col_names = [''substance'', ''source_type''],
       col_types = [TextAffinity, TextAffinity],
       rows = map (\<lambda>(s, t). [sql_text s, sql_text t]) (substance_data df_final) \<rparr>"

definition location_table :: "clean_row list \<Rightarrow> table" where
  "location_table df_final =
     \<lparr> col_names = [''oktmo_code'', ''municipal_formation'', ''municipal_district'', ''region''],
       col_types = [TextAffinity, TextAffinity, TextAffinity, TextAffinity],
       rows = map (\<lambda>(k, f, d, g). [sql_text k, sql_text f, sql_text d, sql_text g])
                (location_data df_final) \<rparr>"

text \<open>The four writes in the order of the source, then the indexes. The result is the
  pair (total, stats) of the source and the file as it is left; \<open>stats\<close> is the
  dictionary in insertion order.\<close>

definition create_database_tables ::
    "clean_row list \<Rightarrow> database \<Rightarrow> (nat \<times> (string \<times> nat) list) \<times> database" where
  "create_database_tables df_final db =
     (let db1 = to_sql ''air_emissions'' (air_emissions_df df_final) db;
          db2 = to_sql ''indicator_codes'' (indicator_table df_final) db1;
          db3 = to_sql ''substance_types'' (substance_table df_final) db2;
          db4 = to_sql ''location_codes'' (location_table df_final) db3;
          stats = [(''air_emissions'', length (rows (air_emissions_df df_final))),
                   (''indicator_codes'', length (indicator_data df_final)),
                   (''substance_types'', length (substance_data df_final)),
                   (''location_codes'', length (location_data df_final))]
      in ((sum_list (map snd stats), stats), create_indexes db4))"

subsection \<open>validate\_database\<close>

record table_report =
  row_count :: nat
  columns :: "string list"
  sample :: "sqlval list list"

datatype log_level = INFO | WARNING | ERROR

text \<open>What the validator logs about its findings: an empty table, and the outcome of
  each of the checks, named by the label of the check.\<close>

datatype event =
    TableEmpty string
  | AllLinksCorrect string
  | MissingLinks string nat
  | CheckFailed string

fun level :: "event \<Rightarrow> log_level" where
  "level (TableEmpty _) = WARNING"
| "level (AllLinksCorrect _) = INFO"
| "level (MissingLinks _ _) = WARNING"
| "level (CheckFailed _) = ERROR"

definition table_names :: "database \<Rightarrow> string list" where
  "table_names db = sort (map fst (tables db))"

definition report :: "table \<Rightarrow> table_report" where
  "report t = \<lparr> row_count = length (rows t), columns = col_names t, sample = take 2 (rows t) \<rparr>"

text \<open>
  The three statements about one table (\<^verbatim>\<open>SELECT COUNT(*) FROM\<close>, \<^verbatim>\<open>PRAGMA table_info\<close>
  and \<^verbatim>\<open>SELECT * FROM ... LIMIT 2\<close>) have the name of the table in their text as it
  is, without quotes. What SQLite reads there is the parameter \<open>reads\<close>: given the names
  of the tables of the file and the text, the table that the three statements read, or
  nothing when one of them fails, as it does on a name with a blank in it or on a reserved
  word. The failing statement raises, outside the inner \<^verbatim>\<open>try\<close>: the validator logs
  the error and raises it again.
\<close>

definition inspect ::
    "(string list \<Rightarrow> string \<Rightarrow> string option) \<Rightarrow> database \<Rightarrow> string \<Rightarrow> error + table_report" where
  "inspect reads db table_name =
     (case reads (map fst (tables db)) table_name of
        None \<Rightarrow> Inl (OperationalError table_name)
      | Some n \<Rightarrow>
          (case map_of (tables db) n of
             None \<Rightarrow> Inl (OperationalError table_name)
           | Some t \<Rightarrow> Inr (report t)))"

text \<open>The loop over the tables stops at the first one that raises.\<close>

fun inspect_all ::
    "(string list \<Rightarrow> string \<Rightarrow> string option) \<Rightarrow> database \<Rightarrow> string list \<Rightarrow>
     error + (string \<times> table_report) list" where
  "inspect_all reads db [] = Inr []"
| "inspect_all reads db (table_name # names) =
     (case inspect reads db table_name of
        Inl e \<Rightarrow> Inl e
      | Inr r \<Rightarrow>
          (case inspect_all reads db names of
             Inl e \<Rightarrow> Inl e
           | Inr rs \<Rightarrow> Inr ((table_name, r) # rs)))"

text \<open>
  The reading used in the examples: a text of letters, digits and underscores that does
  not begin with a digit and is not a reserved word is the name it spells, and any other
  text is refused. SQLite (3.46) reads each of these texts so; it also reads some that
  this reading refuses (a name in quotes or between blanks, a name with a dollar sign or
  with a letter outside ASCII).
\<close>

definition is_letter :: "char \<Rightarrow> bool" where
  "is_letter c = (let n = (of_char c :: nat) in (65 \<le> n \<and> n \<le> 90) \<or> (97 \<le> n \<and> n \<le> 122))"

definition plain_name :: "string \<Rightarrow> bool" where
  "plain_name n =
     (case n of
        [] \<Rightarrow> False
      | c # _ \<Rightarrow>
          \<not> is_digit c \<and> list_all (\<lambda>x. is_digit x \<or> is_letter x \<or> x = CHR ''_'') n)"

definition reserved_words :: "string list" where
  "reserved_words =
     [''add'', ''all'', ''alter'', ''and'', ''as'', ''autoincrement'', ''between'', ''case'',
      ''check'', ''collate'', ''commit'', ''constraint'', ''create'', ''default'',
      ''deferrable'', ''delete'', ''distinct'', ''drop'', ''else'', ''escape'', ''except'',
      ''exists'', ''foreign'', ''from'', ''group'', ''having'', ''in'', ''index'', ''insert'',
      ''intersect'', ''into'', ''is'', ''isnull'', ''join'', ''limit'', ''not'', ''nothing'',
      ''notnull'', ''null'', ''on'', ''or'', ''order'', ''primary'', ''references'',
      ''returning'', ''select'', ''set'', ''table'', ''then'', ''to'', ''transaction'',
      ''union'', ''unique'', ''update'', ''using'', ''values'', ''when'', ''where'']"

definition as_written :: "string list \<Rightarrow> string \<Rightarrow> string option" where
  "as_written names n =
     (if plain_name n \<and> map lower n \<notin> set reserved_words \<and> n \<in> set names then Some n else None)"

text \<open>\<^verbatim>\<open>SELECT column FROM table\<close>, and the declared type of the column; \<open>None\<close> when
  there is no such table or no such column.\<close>

fun index_of :: "'a \<Rightarrow> 'a list \<Rightarrow> nat option" where
  "index_of x [] = None"
| "index_of x (y # ys) = (if x = y then Some 0 else map_option Suc (index_of x ys))"

definition select_column :: "database \<Rightarrow> string \<Rightarrow> string \<Rightarrow> sqlval list option" where
  "select_column db tn column =
     (case map_of (tables db) tn of
        None \<Rightarrow> None
      | Some t \<Rightarrow>
          (case index_of column (col_names t) of
             None \<Rightarrow> None
           | Some i \<Rightarrow> Some (map (\<lambda>r. if i < length r then r ! i else SqlNull) (rows t))))"

definition column_affinity :: "database \<Rightarrow> string \<Rightarrow> string \<Rightarrow> affinity option" where
  "column_affinity db tn column =
     (case map_of (tables db) tn of
        None \<Rightarrow> None
      | Some t \<Rightarrow>
          (case index_of column (col_names t) of
             None \<Rightarrow> None
           | Some i \<Rightarrow> Some (if i < length (col_types t) then col_types t ! i else NumericAffinity)))"

text \<open>
  Before SQLite compares the values of two columns it gives both the numeric affinity,
  unless both columns are text columns: a text that reads as a number, between blanks,
  becomes that number; any other value stays as it is. The numbers SQLite reads are the
  decimal literals with an optional sign and an optional exponent.
\<close>

definition sqlite_number :: "string \<Rightarrow> rat option" where
  "sqlite_number s =
     (let (neg, u) = split_sign (strip s)
      in map_option (\<lambda>q. if neg then - q else q) (parse_decimal u))"

definition apply_numeric :: "sqlval \<Rightarrow> sqlval" where
  "apply_numeric v =
     (case v of
        SqlText s \<Rightarrow> (case sqlite_number s of None \<Rightarrow> v | Some q \<Rightarrow> SqlReal (Finite q))
      | _ \<Rightarrow> v)"

definition comparison :: "affinity \<Rightarrow> affinity \<Rightarrow> sqlval \<Rightarrow> sqlval" where
  "comparison a b v = (if a = TextAffinity \<and> b = TextAffinity then v else apply_numeric v)"

text \<open>\<^verbatim>\<open>x NOT IN (SELECT ...)\<close> in the three-valued logic of SQL, \<open>None\<close> being NULL:
  true on the empty list whatever \<open>x\<close> is; NULL when \<open>x\<close> is NULL; false when \<open>x\<close> is
  in the list; NULL when it is not and the list has a NULL; true otherwise.\<close>

definition not_in :: "sqlval \<Rightarrow> sqlval list \<Rightarrow> bool option" where
  "not_in x ys =
     (if ys = [] then Some True
      else if x = SqlNull then None
      else if x \<in> set ys then Some False
      else if SqlNull \<in> set ys then None
      else Some True)"

text \<open>\<^verbatim>\<open>SELECT COUNT(DISTINCT c) FROM air_emissions WHERE c NOT IN (SELECT k FROM dim)\<close>:
  \<open>WHERE\<close> keeps the rows on which the condition is true, the values being compared
  through \<open>conv\<close>; \<open>COUNT(DISTINCT c)\<close> counts the distinct stored values that are not
  NULL.\<close>

definition count_distinct_not_in :: "(sqlval \<Rightarrow> sqlval) \<Rightarrow> sqlval list \<Rightarrow> sqlval list \<Rightarrow> nat" where
  "count_distinct_not_in conv fks ks =
     length (remdups (filter (\<lambda>x. x \<noteq> SqlNull)
       (filter (\<lambda>x. not_in (conv x) (map conv ks) = Some True) fks)))"

text \<open>
  When the dimension table has no column of the name \<open>k\<close> and \<open>air_emissions\<close> has one,
  SQLite takes the \<open>k\<close> of the subquery for the column of the outer row: for each row of
  \<open>air_emissions\<close> the subquery returns the \<open>k\<close> of that row, once for every row of the
  dimension table. \<open>pairs\<close> are the \<open>c\<close> and the \<open>k\<close> of the rows of \<open>air_emissions\<close>,
  \<open>n\<close> the number of rows of the dimension table.
\<close>

definition count_correlated :: "(sqlval \<Rightarrow> sqlval) \<Rightarrow> (sqlval \<times> sqlval) list \<Rightarrow> nat \<Rightarrow> nat" where
  "count_correlated conv pairs n =
     length (remdups (filter (\<lambda>x. x \<noteq> SqlNull)
       (map fst (filter (\<lambda>(x, y). not_in (conv x) (replicate n (conv y)) = Some True) pairs))))"

text \<open>A check is its label and its query: the column of \<open>air_emissions\<close>, the dimension
  table and its column. The labels of the source are the Russian for "check of" followed
  by the name of the dimension table; the model keeps the table name.\<close>

definition checks :: "(string \<times> string \<times> string \<times> string) list" where
  "checks =
     [(''indicator_codes'', ''code'', ''indicator_codes'', ''code''),
      (''substance_types'', ''substance'', ''substance_types'', ''substance''),
      (''location_codes'', ''oktmo_code'', ''location_codes'', ''oktmo_code'')]"

text \<open>The result of the query, \<open>None\<close> when SQLite refuses it: no table
  \<open>air_emissions\<close> or no such column in it, no dimension table, or a column of the
  subquery that neither table has.\<close>

definition execute :: "database \<Rightarrow> string \<times> string \<times> string \<Rightarrow> nat option" where
  "execute db q =
     (case q of (fact_column, dim_table, dim_column) \<Rightarrow>
        (case select_column db ''air_emissions'' fact_column of
           None \<Rightarrow> None
         | Some fks \<Rightarrow>
        (case column_affinity db ''air_emissions'' fact_column of
           None \<Rightarrow> None
         | Some a \<Rightarrow>
        (case map_of (tables db) dim_table of
           None \<Rightarrow> None
         | Some d \<Rightarrow>
        (case select_column db dim_table dim_column of
           Some ks \<Rightarrow>
             (case column_affinity db dim_table dim_column of
                None \<Rightarrow> None
              | Some b \<Rightarrow> Some (count_distinct_not_in (comparison a b) fks ks))
         | None \<Rightarrow>
             (case select_column db ''air_emissions'' dim_column of
                None \<Rightarrow> None
              | Some outer \<Rightarrow>
                  (case column_affinity db ''air_emissions'' dim_column of
                     None \<Rightarrow> None
                   | Some b \<Rightarrow>
                       Some (count_correlated (comparison a b) (zip fks outer)
                               (length (rows d))))))))))"

text \<open>A query that SQLite refuses is logged as an error and the loop goes on.\<close>

definition run_check :: "database \<Rightarrow> string \<times> string \<times> string \<times> string \<Rightarrow> event" where
  "run_check db c =
     (case c of (check_name, query) \<Rightarrow>
        (case execute db query of
           None \<Rightarrow> CheckFailed check_name
         | Some missing \<Rightarrow>
             if missing = 0 then AllLinksCorrect check_name
             else MissingLinks check_name missing))"

text \<open>The validator reads the file: it has no way to change it. It returns the report of
  every table, by name in ascending order, with what it logged, or the error of the first
  table whose statements SQLite refuses.\<close>

definition validate_database ::
    "(string list \<Rightarrow> string \<Rightarrow> string option) \<Rightarrow> database \<Rightarrow>
     error + ((string \<times> table_report) list \<times> event list)" where
  "validate_database reads db =
     (case inspect_all reads db (table_names db) of
        Inl e \<Rightarrow> Inl e
      | Inr validation_results \<Rightarrow>
          Inr (validation_results,
               map (\<lambda>(n, r). TableEmpty n) (filter (\<lambda>(n, r). row_count r = 0) validation_results)
               @ map (run_check db) checks))"

subsection \<open>The flow\<close>

text \<open>\<open>read_csv\<close> is the reading of a file by the library: the frame, or nothing when
  the file cannot be read.\<close>

definition extract_data :: "(string \<Rightarrow> raw_row list option) \<Rightarrow> string \<Rightarrow> error + raw_row list" where
  "extract_data read_csv file_path =
     (case read_csv file_path of
        None \<Rightarrow> Inl (FileNotFoundError file_path)
      | Some df \<Rightarrow> Inr df)"

record summary =
  timestamp :: string
  input_file :: string
  database_file :: string
  total_records_processed :: nat
  table_statistics :: "(string \<times> nat) list"
  validation_results :: "(string \<times> table_report) list"
  status :: string

text \<open>
  The flow takes the reading of names \<open>reads\<close>, the reader of numbers \<open>tn\<close>, the clock
  reading \<open>now\<close>, the file system \<open>read_csv\<close>, its three arguments, and the contents
  \<open>db\<close> of the SQLite file at \<open>db_file\<close>. It returns the error raised with the file as
  it is then (untouched when the extractor or the transformer raises, written by the
  loader when the validator raises), or the summary, the file as it is left, and what the
  validator logged.
\<close>

definition air_quality_etl_flow ::
    "(string list \<Rightarrow> string \<Rightarrow> string option) \<Rightarrow> (string \<Rightarrow> pyfloat option) \<Rightarrow> string \<Rightarrow>
     (string \<Rightarrow> raw_row list option) \<Rightarrow> string \<Rightarrow> string \<Rightarrow> bool \<Rightarrow> database \<Rightarrow>
     (error \<times> database) + (summary \<times> database \<times> event list)" where
  "air_quality_etl_flow reads tn now read_csv data_file db_file run_validation db =
     (case extract_data read_csv data_file of
        Inl e \<Rightarrow> Inl (e, db)
      | Inr raw_data \<Rightarrow>
          (case transform_data tn raw_data of
             Inl e \<Rightarrow> Inl (e, db)
           | Inr transformed_data \<Rightarrow>
               (case create_database_tables transformed_data db of
                  ((total_records, table_stats), db') \<Rightarrow>
                    (case (if run_validation then validate_database reads db'
                           else Inr ([], [])) of
                       Inl e \<Rightarrow> Inl (e, db')
                     | Inr (results, logged) \<Rightarrow>
                         Inr (\<lparr> timestamp = now,
                                input_file = data_file,
                                database_file = db_file,
                                total_records_processed = total_records,
                                table_statistics = table_stats,
                                validation_results = results,
                                status = ''COMPLETED'' \<rparr>,
                              db', logged)))))"

subsection \<open>Names and sample inputs used in the statements\<close>

text \<open>The four relations the loader writes.\<close>

definition relation_names :: "string list" where
  "relation_names = [''air_emissions'', ''indicator_codes'', ''substance_types'', ''location_codes'']"

text \<open>One line of a well-formed file, with a decimal comma in its value, a header of
  fourteen columns, and a new SQLite file.\<close>

definition sample_row :: raw_row where
  "sample_row =
     \<lparr> section = Some ''1'', indicator = Some ''Emissions'', unit = Some ''t'',
       code = Some ''I1'', substance = Some ''SO2'', source_type = Some ''stationary'',
       emission_type = Some ''total'', location_level = Some ''region'', region = Some ''R'',
       municipal_district = Some ''D'', municipal_formation = Some ''F'',
       oktmo_code = Some ''45000000'', year = Some ''2020'', value = Some ''1234,5'' \<rparr>"

definition raw_header :: "string list" where
  "raw_header = [''c01'', ''c02'', ''c03'', ''c04'', ''c05'', ''c06'', ''c07'', ''c08'', ''c09'',
                 ''c10'', ''c11'', ''c12'', ''c13'', ''c14'']"

definition empty_db :: database where
  "empty_db = \<lparr> tables = [], indexes = [] \<rparr>"

text \<open>A cleaned frame of four rows: the substance SO2 with two source types, the code
  I1 with two descriptions, and the first row once more at the end.\<close>

definition sample_clean :: clean_row where
  "sample_clean =
     \<lparr> section = Some ''1'', indicator = Some ''Emissions'', unit = Some ''t'',
       code = Some ''I1'', substance = Some ''SO2'', source_type = Some ''stationary'',
       emission_type = Some ''total'', location_level = Some ''region'', region = Some ''R'',
       municipal_district = Some ''D'', municipal_formation = Some ''F'',
       oktmo_code = Some ''45000000'', year = Finite 2020, value = Finite 1234.5 \<rparr>"

definition sample_frame :: "clean_row list" where
  "sample_frame =
     [sample_clean,
      sample_clean\<lparr>source_type := Some ''mobile'', indicator := Some ''Emissions, total''\<rparr>,
      sample_clean\<lparr>substance := Some ''CO'', source_type := Some ''mobile'', code := Some ''I0''\<rparr>,
      sample_clean]"

text \<open>Two files as another writer could leave them. In \<open>orphan_db\<close> the only key of the
  location table is NULL and the fact row refers to a location that is not there; in
  \<open>missing_db\<close> the location table has another key than the one the fact row refers to.\<close>

definition orphan_db :: database where
  "orphan_db =
     \<lparr> tables =
         [(''air_emissions'',
           \<lparr> col_names = [''section'', ''code'', ''substance'', ''value'', ''oktmo_code'', ''year''],
             col_types = [TextAffinity, TextAffinity, TextAffinity, NumericAffinity, TextAffinity,
                          NumericAffinity],
             rows = [[SqlText ''1'', SqlText ''I1'', SqlText ''SO2'', SqlReal (Finite 1),
                      SqlText ''45000000'', SqlReal (Finite 2020)]] \<rparr>),
          (''indicator_codes'',
           \<lparr> col_names = [''code'', ''indicator''],
             col_types = [TextAffinity, TextAffinity],
             rows = [[SqlText ''I1'', SqlText ''Emissions'']] \<rparr>),
          (''substance_types'',
           \<lparr> col_names = [''substance'', ''source_type''],
             col_types = [TextAffinity, TextAffinity],
             rows = [[SqlText ''SO2'', SqlText ''stationary'']] \<rparr>),
          (''location_codes'',
           \<lparr> col_names = [''oktmo_code'', ''municipal_formation'', ''municipal_district'', ''region''],
             col_types = [TextAffinity, TextAffinity, TextAffinity, TextAffinity],
             rows = [[SqlNull, SqlText ''F'', SqlText ''D'', SqlText ''R'']] \<rparr>)],
       indexes = [] \<rparr>"

definition missing_db :: database where
  "missing_db =
     \<lparr> tables =
         [(''air_emissions'',
           \<lparr> col_names = [''section'', ''code'', ''substance'', ''value'', ''oktmo_code'', ''year''],
             col_types = [TextAffinity, TextAffinity, TextAffinity, NumericAffinity, TextAffinity,
                          NumericAffinity],
             rows = [[SqlText ''1'', SqlText ''I1'', SqlText ''SO2'', SqlReal (Finite 1),
                      SqlText ''45000000'', SqlReal (Finite 2020)]] \<rparr>),
          (''location_codes'',
           \<lparr> col_names = [''oktmo_code'', ''municipal_formation'', ''municipal_district'', ''region''],
             col_types = [TextAffinity, TextAffinity, TextAffinity, TextAffinity],
             rows = [[SqlText ''46000000'', SqlText ''F'', SqlText ''D'', SqlText ''R'']] \<rparr>)],
       indexes = [] \<rparr>"

text \<open>A file with one table, whose name has a blank in it.\<close>

definition blank_name_db :: database where
  "blank_name_db =
     \<lparr> tables = [(''my table'', \<lparr> col_names = [''a''], col_types = [TextAffinity], rows = [] \<rparr>)],
       indexes = [] \<rparr>"

text \<open>Two files that the loader does not write. In \<open>numeric_key_db\<close> the key of the
  location table is a numeric column and holds the number that the fact row holds as a
  text. In \<open>keyless_db\<close> the location table has no column \<open>oktmo_code\<close>.\<close>

definition numeric_key_db :: database where
  "numeric_key_db =
     \<lparr> tables =
         [(''air_emissions'',
           \<lparr> col_names = [''oktmo_code''], col_types = [TextAffinity],
             rows = [[SqlText ''45000000'']] \<rparr>),
          (''location_codes'',
           \<lparr> col_names = [''oktmo_code''], col_types = [NumericAffinity],
             rows = [[SqlReal (Finite 45000000)]] \<rparr>)],
       indexes = [] \<rparr>"

definition keyless_db :: database where
  "keyless_db =
     \<lparr> tables =
         [(''air_emissions'',
           \<lparr> col_names = [''oktmo_code''], col_types = [TextAffinity],
             rows = [[SqlText ''45000000'']] \<rparr>),
          (''location_codes'',
           \<lparr> col_names = [''region''], col_types = [TextAffinity],
             rows = [[SqlText ''R'']] \<rparr>)],
       indexes = [] \<rparr>"

section \<open>Properties\<close>

subsection \<open>Evaluating the float reader\<close>

lemmas py_float_defs =
  py_float_def strip_def is_space_def is_digit_def split_sign_def lower_def parse_decimal_def
  parse_exponent_def scale10_def digits_val_def

lemmas transform_defs =
  transform_data_def dropna_def convert_row_def str_replace_def astype_float_def to_numeric_def
  float_ne_def sentinel_def excluded_substances_def

lemma py_float_comma_decimal: "py_float ''1234.5'' = Some (Finite 1234.5)"
  by (simp add: py_float_defs)

lemma py_float_abc: "py_float ''abc'' = None"
  by (simp add: py_float_defs)

lemma py_float_NAN: "py_float ''NAN'' = Some NaN"
  by (simp add: py_float_defs)

subsection \<open>The transformer\<close>

lemma convert_row_fields:
  assumes "convert_row tn r = Inr r'"
  shows "section r' = section r" "code r' = code r" "substance r' = substance r"
    "oktmo_code r' = oktmo_code r" "indicator r' = indicator r" "source_type r' = source_type r"
    "astype_float (str_replace (value r)) = Inr (value r')"
  using assms by (auto simp: convert_row_def split: sum.splits)

lemma compute_set:
  assumes "compute tn rs = Inr df" and "r' \<in> set df"
  shows "\<exists>r \<in> set rs. convert_row tn r = Inr r'"
  using assms
proof (induction rs arbitrary: df)
  case Nil
  then show ?case by simp
next
  case (Cons r rs)
  then show ?case by (auto split: sum.splits)
qed

lemma transform_data_invariants:
  assumes "transform_data tn df = Inr df_final" and "r \<in> set df_final"
  shows "section r \<noteq> None \<and> code r \<noteq> None \<and> substance r \<noteq> None
         \<and> value r \<noteq> sentinel \<and> substance r \<notin> set excluded_substances"
proof -
  from assms obtain cs where cs: "compute tn (dropna df) = Inr cs"
    and r: "r \<in> set cs" "float_ne (value r) sentinel" "substance r \<notin> set excluded_substances"
    by (auto simp: transform_data_def split: sum.splits)
  from compute_set[OF cs r(1)] obtain r0 where r0: "r0 \<in> set (dropna df)" "convert_row tn r0 = Inr r"
    by blast
  from r0(1) have "section r0 \<noteq> None \<and> code r0 \<noteq> None \<and> substance r0 \<noteq> None"
    by (simp add: dropna_def)
  with convert_row_fields[OF r0(2)] r show ?thesis
    by (auto simp: float_ne_def sentinel_def)
qed

text \<open>
  Claim C1: every row of the transformer's output has \<open>section\<close>, \<open>code\<close>, \<open>substance\<close>
  and \<open>value\<close> present, a value other than the sentinel 9999999999.0 and a substance
  outside the excluded codes CD and ND.

  \<open>transform_data_invariants\<close> above proves all of it but the presence of the value.
  The rows with a missing value are dropped before the text is converted, and the
  conversion reads the text \<open>NAN\<close> (which the file reader does not take for a missing
  cell) as the float NaN, the missing value of a float column. Nothing drops the row
  afterwards: it is in the output with a missing value, and in the fact table with NULL.
\<close>

theorem nan_text_survives_cleaning:
  "\<exists>r. transform_data tn [sample_row\<lparr>value := Some ''NAN''\<rparr>] = Inr [r] \<and> value r = NaN
        \<and> rows (air_emissions_df [r]) =
            [[SqlText ''1'', SqlText ''I1'', SqlText ''SO2'', SqlNull, SqlText ''45000000'',
              sql_real (to_numeric tn (Some ''2020''))]]"
  by (simp add: sample_row_def transform_data_def dropna_def convert_row_def str_replace_def astype_float_def
        float_ne_def sentinel_def excluded_substances_def py_float_NAN air_emissions_df_def sql_text_def sql_real_def)

text \<open>
  Claim C2: the value is read after its decimal comma is replaced by a point, so that
  \<open>1234,5\<close> is the number 1234.5; a row whose value is not a number, such as \<open>abc\<close>,
  is dropped, and the failure never aborts the run.

  The first half holds. For the second, the conversion of \<open>abc\<close> raises, the transformer
  logs and raises again, and the flow ends with the error: the row beside it, which is
  well formed, is lost with it, and the file is left as it was.
\<close>

theorem unparseable_value_aborts_run:
  "astype_float (str_replace (Some ''1234,5'')) = Inr (Finite 1234.5)
   \<and> air_quality_etl_flow reads tn now
        (\<lambda>_. Some [sample_row, sample_row\<lparr>value := Some ''abc''\<rparr>])
        data_file db_file run_validation db = Inl (ValueError ''abc'', db)"
  by (simp add: air_quality_etl_flow_def extract_data_def sample_row_def transform_data_def dropna_def
        convert_row_def str_replace_def astype_float_def py_float_comma_decimal py_float_abc)

lemma rename_columns_14:
  assumes "distinct cols" and "length cols = 14"
  shows "rename_columns cols = new_names"
proof -
  have len: "length cols = length new_names"
    using assms(2) by (simp add: new_names_def)
  have "map_of (rev (zip cols new_names)) = map_of (zip cols new_names)"
    by (rule map_of_inject_set [THEN iffD2]) (use assms(1) len in \<open>simp_all add: rev_map [symmetric]\<close>)
  moreover have "map_of (zip cols new_names) (cols ! i) = Some (new_names ! i)" if "i < length cols" for i
    using that len assms(1) by (simp add: map_of_zip_nth)
  ultimately show ?thesis
    using len by (auto simp: rename_columns_def intro!: nth_equalityI)
qed

text \<open>
  Claim C7, as amended: the transformer renames the fourteen positional columns, in their
  order, to section, indicator, unit, code, substance, source\_type, emission\_type,
  location\_level, region, municipal\_district, municipal\_formation, oktmo\_code, year,
  value. The twelfth name is \<open>oktmo_code\<close>, and that is the name of the column in the
  fact relation and in the location relation.
\<close>

theorem twelfth_column_is_oktmo_code:
  assumes "distinct cols" and "length cols = 14"
  shows "rename_columns cols =
           [''section'', ''indicator'', ''unit'', ''code'', ''substance'', ''source_type'',
            ''emission_type'', ''location_level'', ''region'', ''municipal_district'',
            ''municipal_formation'', ''oktmo_code'', ''year'', ''value'']
         \<and> rename_columns cols ! 11 = ''oktmo_code''
         \<and> col_names (air_emissions_df df) = [''section'', ''code'', ''substance'', ''value'', ''oktmo_code'', ''year'']
         \<and> col_names (location_table df) = [''oktmo_code'', ''municipal_formation'', ''municipal_district'', ''region'']"
  using rename_columns_14[OF assms]
  by (simp add: new_names_def air_emissions_df_def location_table_def)

theorem twelfth_column_is_oktmo_code_witness:
  "distinct raw_header \<and> length raw_header = 14 \<and> rename_columns raw_header ! 11 = ''oktmo_code''"
proof -
  have d: "distinct raw_header" and l: "length raw_header = 14"
    by (simp_all add: raw_header_def)
  from twelfth_column_is_oktmo_code[OF d l] d l show ?thesis by simp
qed

text \<open>Claim C7 as it is written, with \<open>location_code\<close> for the twelfth name, fails on
  any header.\<close>

theorem twelfth_column_not_location_code:
  "rename_columns raw_header \<noteq>
     [''section'', ''indicator'', ''unit'', ''code'', ''substance'', ''source_type'',
      ''emission_type'', ''location_level'', ''region'', ''municipal_district'',
      ''municipal_formation'', ''location_code'', ''year'', ''value'']"
  by (simp add: rename_columns_def raw_header_def new_names_def)

subsection \<open>The loader: the frames it writes\<close>

lemma set_drop_duplicates_from_id:
  "set (drop_duplicates_from seen id xs) = set xs - set seen"
  by (induction xs arbitrary: seen) auto

lemma keys_drop_duplicates_from:
  "set (map key (drop_duplicates_from seen key xs)) = set (map key xs) - set seen"
  by (induction xs arbitrary: seen) auto

lemma distinct_keys_drop_duplicates_from:
  "distinct (map key (drop_duplicates_from seen key xs))"
proof (induction xs arbitrary: seen)
  case Nil
  then show ?case by simp
next
  case (Cons x xs)
  have "key x \<notin> set (map key (drop_duplicates_from (key x # seen) key xs))"
    unfolding keys_drop_duplicates_from by simp
  with Cons show ?case by simp
qed

lemma map_of_drop_duplicates_from:
  "map_of (drop_duplicates_from seen fst ps) k = (if k \<in> set seen then None else map_of ps k)"
proof (induction ps arbitrary: seen)
  case Nil
  then show ?case by simp
next
  case (Cons p ps)
  then show ?case by (cases p) auto
qed

lemma set_drop_duplicates_id [simp]: "set (drop_duplicates id xs) = set xs"
  by (simp add: drop_duplicates_def set_drop_duplicates_from_id)

lemma keys_drop_duplicates: "set (map key (drop_duplicates key xs)) = set (map key xs)"
  using keys_drop_duplicates_from [of key "[]" xs] by (simp add: drop_duplicates_def)

lemma distinct_keys_drop_duplicates: "distinct (map key (drop_duplicates key xs))"
  by (simp add: drop_duplicates_def distinct_keys_drop_duplicates_from)

lemma distinct_drop_duplicates_id: "distinct (drop_duplicates id xs)"
  using distinct_keys_drop_duplicates [of id xs] by simp

lemma map_of_drop_duplicates: "map_of (drop_duplicates fst ps) = map_of ps"
  by (rule ext) (simp add: drop_duplicates_def map_of_drop_duplicates_from)

lemma set_sort_values [simp]: "set (sort_values key xs) = set xs"
  by (simp add: sort_values_def)

lemma distinct_sort_values [simp]: "distinct (sort_values key xs) = distinct xs"
  by (simp add: sort_values_def)

lemma length_sort_values [simp]: "length (sort_values key xs) = length xs"
  by (simp add: sort_values_def)

lemma sorted_sort_values: "sorted (map (\<lambda>x. na_last (key x)) (sort_values key xs))"
  by (simp add: sort_values_def)

lemma distinct_keys_insort_key:
  "distinct (map key (insort_key f x ys)) = (key x \<notin> key ` set ys \<and> distinct (map key ys))"
  by (induction ys) (auto simp: set_insort_key)

lemma distinct_keys_sort_key:
  "distinct (map key (sort_key f xs)) = distinct (map key xs)"
  by (induction xs) (simp_all add: distinct_keys_insort_key)

lemma distinct_keys_sort_values:
  "distinct (map key (sort_values k xs)) = distinct (map key xs)"
  by (simp add: sort_values_def distinct_keys_sort_key)

lemma map_of_sort_values:
  assumes "distinct (map fst ps)"
  shows "map_of (sort_values k ps) = map_of ps"
  by (rule map_of_inject_set [THEN iffD2]) (use assms in \<open>simp_all add: distinct_keys_sort_values\<close>)

lemma map_of_project:
  "map_of (map (\<lambda>r. (f r, g r)) df) s = map_option g (find (\<lambda>r. f r = s) df)"
  by (induction df) auto

lemma na_last_le [simp]: "na_last (Some a) \<le> na_last (Some b) \<longleftrightarrow> a \<le> b"
  by (auto simp: na_last_def less_eq_prod_def)

lemma na_last_None [simp]: "na_last c \<le> na_last None"
  by (auto simp: na_last_def less_eq_prod_def split: option.splits)

subsection \<open>The loader: what is in the file afterwards\<close>

lemma tables_create_index_if_not_exists [simp]:
  "tables (create_index_if_not_exists ix db) = tables db"
  by (auto simp: create_index_if_not_exists_def split: prod.splits option.splits)

lemma tables_foldl_create_index:
  "tables (foldl (\<lambda>d ix. create_index_if_not_exists ix d) db ixs) = tables db"
  by (induction ixs arbitrary: db) simp_all

lemma tables_create_indexes [simp]: "tables (create_indexes db) = tables db"
  by (simp add: create_indexes_def tables_foldl_create_index)

lemma indexes_create_index_other:
  assumes "fst ix \<in> W"
  shows "filter (\<lambda>(tn, _, _). tn \<notin> W) (indexes (create_index_if_not_exists ix db))
         = filter (\<lambda>(tn, _, _). tn \<notin> W) (indexes db)"
  using assms
  by (auto simp: create_index_if_not_exists_def split: prod.splits option.splits)

lemma indexes_foldl_create_index_other:
  assumes "\<forall>ix \<in> set ixs. fst ix \<in> W"
  shows "filter (\<lambda>(tn, _, _). tn \<notin> W) (indexes (foldl (\<lambda>d ix. create_index_if_not_exists ix d) db ixs))
         = filter (\<lambda>(tn, _, _). tn \<notin> W) (indexes db)"
  using assms
  by (induction ixs arbitrary: db) (simp_all add: indexes_create_index_other)

lemma indexes_create_indexes_other:
  "filter (\<lambda>(tn, _, _). tn \<notin> set relation_names) (indexes (create_indexes db))
   = filter (\<lambda>(tn, _, _). tn \<notin> set relation_names) (indexes db)"
  unfolding create_indexes_def
  by (rule indexes_foldl_create_index_other) (simp add: index_list_def relation_names_def)

lemma filter_four_tables:
  "filter (\<lambda>(n, _). n \<noteq> ''location_codes'') (filter (\<lambda>(n, _). n \<noteq> ''substance_types'')
          (filter (\<lambda>(n, _). n \<noteq> ''indicator_codes'') (filter (\<lambda>(n, _). n \<noteq> ''air_emissions'') ts)))
        = filter (\<lambda>(n, _). n \<notin> set relation_names) ts"
  by (induction ts) (auto simp: relation_names_def)

lemma filter_four_indexes:
  "filter (\<lambda>(n, _, _). n \<noteq> ''location_codes'') (filter (\<lambda>(n, _, _). n \<noteq> ''substance_types'')
          (filter (\<lambda>(n, _, _). n \<noteq> ''indicator_codes'') (filter (\<lambda>(n, _, _). n \<noteq> ''air_emissions'') ts)))
        = filter (\<lambda>(n, _, _). n \<notin> set relation_names) ts"
  by (induction ts) (auto simp: relation_names_def)

lemma filter_written_tables:
  "filter (\<lambda>(n, _). n \<notin> set relation_names)
     [(''air_emissions'', a), (''indicator_codes'', i), (''substance_types'', s), (''location_codes'', l)] = []"
  by (simp add: relation_names_def)

lemma create_database_tables_db:
  "snd (create_database_tables df db) =
     create_indexes
       \<lparr> tables =
           filter (\<lambda>(n, _). n \<notin> set relation_names) (tables db)
           @ [(''air_emissions'', air_emissions_df df), (''indicator_codes'', indicator_table df),
              (''substance_types'', substance_table df), (''location_codes'', location_table df)],
         indexes = filter (\<lambda>(tn, _, _). tn \<notin> set relation_names) (indexes db) \<rparr>"
  by (simp add: create_database_tables_def to_sql_def Let_def filter_four_tables filter_four_indexes
        del: filter_filter)

lemma create_database_tables_stats:
  "fst (create_database_tables df db) = fst (create_database_tables df db2)"
  by (simp add: create_database_tables_def Let_def)

lemma create_database_tables_twice:
  "snd (create_database_tables df (snd (create_database_tables df db))) = snd (create_database_tables df db)"
proof -
  let ?P = "\<lambda>(n :: string, _ :: table). n \<notin> set relation_names"
  let ?Q = "\<lambda>(tn :: string, _ :: string, _ :: string). tn \<notin> set relation_names"
  let ?N = "[(''air_emissions'', air_emissions_df df), (''indicator_codes'', indicator_table df),
             (''substance_types'', substance_table df), (''location_codes'', location_table df)]"
  let ?db1 = "snd (create_database_tables df db)"
  have t: "tables ?db1 = filter ?P (tables db) @ ?N"
    by (simp add: create_database_tables_db)
  have i: "filter ?Q (indexes ?db1) = filter ?Q (indexes db)"
    by (simp add: create_database_tables_db indexes_create_indexes_other)
  have f: "filter ?P (filter ?P (tables db) @ ?N) = filter ?P (tables db)"
    by (simp add: relation_names_def)
  have "snd (create_database_tables df ?db1) =
          create_indexes \<lparr> tables = filter ?P (tables ?db1) @ ?N, indexes = filter ?Q (indexes ?db1) \<rparr>"
    by (rule create_database_tables_db)
  also have "\<dots> = create_indexes \<lparr> tables = filter ?P (tables db) @ ?N, indexes = filter ?Q (indexes db) \<rparr>"
    by (simp only: t i f)
  also have "\<dots> = ?db1"
    by (rule create_database_tables_db [symmetric])
  finally show ?thesis .
qed

lemma tables_create_database_tables:
  "tables (snd (create_database_tables df db)) =
     filter (\<lambda>(n, _). n \<notin> set relation_names) (tables db)
     @ [(''air_emissions'', air_emissions_df df), (''indicator_codes'', indicator_table df),
        (''substance_types'', substance_table df), (''location_codes'', location_table df)]"
  by (simp add: create_database_tables_db)

lemma map_of_filter_notin:
  "k \<in> set names \<Longrightarrow> map_of (filter (\<lambda>(n, _). n \<notin> set names) ts) k = None"
  by (induction ts) auto

lemma map_of_tables_written:
  assumes "k \<in> set relation_names"
  shows "map_of (tables (snd (create_database_tables df db))) k =
           map_of [(''air_emissions'', air_emissions_df df), (''indicator_codes'', indicator_table df),
                   (''substance_types'', substance_table df), (''location_codes'', location_table df)] k"
  unfolding tables_create_database_tables map_of_append map_add_def
  by (simp only: map_of_filter_notin [OF assms] option.case)

lemma select_fact_oktmo_code:
  "select_column (snd (create_database_tables df_final db)) ''air_emissions'' ''oktmo_code''
     = Some (map (\<lambda>r. sql_text (oktmo_code r)) df_final)"
proof -
  have "''air_emissions'' \<in> set relation_names"
    by (simp add: relation_names_def)
  then have "map_of (tables (snd (create_database_tables df_final db))) ''air_emissions''
          = Some (air_emissions_df df_final)"
    by (simp add: map_of_tables_written)
  then show ?thesis
    by (simp add: select_column_def air_emissions_df_def comp_def)
qed

lemma select_location_oktmo_code:
  "select_column (snd (create_database_tables df_final db)) ''location_codes'' ''oktmo_code''
     = Some (map (\<lambda>(k, f, d, g). sql_text k) (location_data df_final))"
proof -
  have "''location_codes'' \<in> set relation_names"
    by (simp add: relation_names_def)
  then have "map_of (tables (snd (create_database_tables df_final db))) ''location_codes''
          = Some (location_table df_final)"
    by (simp add: map_of_tables_written)
  then show ?thesis
    by (simp add: select_column_def location_table_def comp_def split_def)
qed

text \<open>
  Claim C5: the substance relation has exactly one row for each distinct substance of the
  cleaned frame, that row is the first row of the frame with that substance, and the
  relation is sorted by substance.

  The keys of the relation are distinct and are the substances of the frame; looking a
  substance up in the relation gives the source type of the first row of the frame
  with that substance; the keys ascend (in the order of \<open>na_last\<close>: strings in their
  order, a missing cell after them); and these rows are the table of that name in the
  file that the loader leaves.
\<close>

theorem substance_types_first_seen:
  "distinct (map fst (substance_data df))
   \<and> set (map fst (substance_data df)) = set (map substance df)
   \<and> (\<forall>s. map_of (substance_data df) s = map_option source_type (find (\<lambda>r. substance r = s) df))
   \<and> sorted (map (\<lambda>p. na_last (fst p)) (substance_data df))
   \<and> rows (substance_table df) = map (\<lambda>(s, t). [sql_text s, sql_text t]) (substance_data df)
   \<and> map_of (tables (snd (create_database_tables df db))) ''substance_types''
       = Some (substance_table df)"
proof -
  let ?ps = "map (\<lambda>r. (substance r, source_type r)) df"
  have d: "distinct (map fst (drop_duplicates fst ?ps))"
    by (rule distinct_keys_drop_duplicates)
  have 1: "distinct (map fst (substance_data df))"
    by (simp add: substance_data_def distinct_keys_sort_values d)
  have "set (map fst (substance_data df)) = set (map fst ?ps)"
    using keys_drop_duplicates [of fst ?ps] by (simp add: substance_data_def)
  then have 2: "set (map fst (substance_data df)) = set (map substance df)"
    by (simp add: image_image)
  have 3: "map_of (substance_data df) s = map_option source_type (find (\<lambda>r. substance r = s) df)" for s
    by (simp add: substance_data_def map_of_sort_values [OF d] map_of_drop_duplicates map_of_project)
  have 4: "sorted (map (\<lambda>p. na_last (fst p)) (substance_data df))"
    unfolding substance_data_def by (rule sorted_sort_values)
  have 5: "rows (substance_table df) = map (\<lambda>(s, t). [sql_text s, sql_text t]) (substance_data df)"
    by (simp add: substance_table_def)
  have "''substance_types'' \<in> set relation_names"
    by (simp add: relation_names_def)
  then have 6: "map_of (tables (snd (create_database_tables df db))) ''substance_types''
       = Some (substance_table df)"
    by (simp add: map_of_tables_written)
  from 1 2 3 4 5 6 show ?thesis by blast
qed

lemma substance_data_sample:
  "substance_data sample_frame = [(Some ''CO'', Some ''mobile''), (Some ''SO2'', Some ''stationary'')]"
  by (simp add: substance_data_def sample_frame_def sample_clean_def drop_duplicates_def
        sort_values_def na_last_def less_eq_prod_def less_prod_def)

theorem substance_types_first_seen_witness:
  "substance_data sample_frame = [(Some ''CO'', Some ''mobile''), (Some ''SO2'', Some ''stationary'')]
   \<and> map_of (substance_data sample_frame) (Some ''SO2'')
       = map_option source_type (find (\<lambda>r. substance r = Some ''SO2'') sample_frame)
   \<and> set (map fst (substance_data sample_frame)) = set (map substance sample_frame)"
  using substance_types_first_seen [of sample_frame] substance_data_sample
  by blast

text \<open>
  Claim C6: the indicator relation holds every distinct pair (code, description) of the
  cleaned frame, so that a code with several descriptions has several rows, holds no pair
  twice, and is sorted by code.
\<close>

theorem indicator_codes_distinct_pairs:
  "set (indicator_data df) = (\<lambda>r. (code r, indicator r)) ` set df
   \<and> distinct (indicator_data df)
   \<and> sorted (map (\<lambda>p. na_last (fst p)) (indicator_data df))
   \<and> rows (indicator_table df) = map (\<lambda>(c, i). [sql_text c, sql_text i]) (indicator_data df)
   \<and> map_of (tables (snd (create_database_tables df db))) ''indicator_codes''
       = Some (indicator_table df)"
proof -
  have 1: "set (indicator_data df) = (\<lambda>r. (code r, indicator r)) ` set df"
    by (simp add: indicator_data_def)
  have 2: "distinct (indicator_data df)"
    by (simp add: indicator_data_def distinct_drop_duplicates_id)
  have 3: "sorted (map (\<lambda>p. na_last (fst p)) (indicator_data df))"
    unfolding indicator_data_def by (rule sorted_sort_values)
  have 4: "rows (indicator_table df) = map (\<lambda>(c, i). [sql_text c, sql_text i]) (indicator_data df)"
    by (simp add: indicator_table_def)
  have "''indicator_codes'' \<in> set relation_names"
    by (simp add: relation_names_def)
  then have 5: "map_of (tables (snd (create_database_tables df db))) ''indicator_codes''
       = Some (indicator_table df)"
    by (simp add: map_of_tables_written)
  from 1 2 3 4 5 show ?thesis by blast
qed

lemma indicator_data_sample:
  "indicator_data sample_frame =
     [(Some ''I0'', Some ''Emissions''), (Some ''I1'', Some ''Emissions''),
      (Some ''I1'', Some ''Emissions, total'')]"
  by (simp add: indicator_data_def sample_frame_def sample_clean_def drop_duplicates_def
        sort_values_def na_last_def less_eq_prod_def less_prod_def)

theorem indicator_codes_distinct_pairs_witness:
  "indicator_data sample_frame =
     [(Some ''I0'', Some ''Emissions''), (Some ''I1'', Some ''Emissions''),
      (Some ''I1'', Some ''Emissions, total'')]
   \<and> set (indicator_data sample_frame) = (\<lambda>r. (code r, indicator r)) ` set sample_frame
   \<and> distinct (indicator_data sample_frame)"
  using indicator_codes_distinct_pairs [of sample_frame] indicator_data_sample
  by blast

subsection \<open>The validator\<close>




lemma inspect_all_returns:
  assumes "\<forall>n \<in> set names. reads (map fst (tables db)) n = Some n \<and> n \<in> fst ` set (tables db)"
  shows "\<exists>rs. inspect_all reads db names = Inr rs"
  using assms
proof (induction names)
  case Nil
  then show ?case by simp
next
  case (Cons n names)
  then obtain rs where rs: "inspect_all reads db names = Inr rs"
    by auto
  from Cons.prems have "reads (map fst (tables db)) n = Some n" and "n \<in> fst ` set (tables db)"
    by auto
  from this(2) have "map_of (tables db) n \<noteq> None"
    by (simp add: map_of_eq_None_iff)
  then obtain t where "map_of (tables db) n = Some t"
    by blast
  with \<open>reads (map fst (tables db)) n = Some n\<close> have "inspect reads db n = Inr (report t)"
    by (simp add: inspect_def)
  with rs show ?case by simp
qed

lemma validate_database_returns:
  assumes "\<forall>n \<in> set (map fst (tables db)). reads (map fst (tables db)) n = Some n"
  shows "\<exists>results lg. validate_database reads db = Inr (results, lg)"
proof -
  have "\<exists>rs. inspect_all reads db (table_names db) = Inr rs"
    by (rule inspect_all_returns) (use assms in \<open>auto simp: table_names_def\<close>)
  then show ?thesis
    by (auto simp: validate_database_def)
qed

lemma validate_database_raises:
  assumes "n \<in> set (map fst (tables db))" and "reads (map fst (tables db)) n = None"
  shows "\<exists>e. validate_database reads db = Inl e"
proof -
  have "\<exists>e. inspect_all reads db names = Inl e" if "n \<in> set names" for names
    using that assms(2)
    by (induction names) (auto simp: inspect_def split: sum.splits option.splits)
  from this [of "table_names db"] assms(1) show ?thesis
    by (auto simp: validate_database_def table_names_def)
qed

lemma lower_relation_names:
  "map lower ''air_emissions'' = ''air_emissions''"
  "map lower ''indicator_codes'' = ''indicator_codes''"
  "map lower ''substance_types'' = ''substance_types''"
  "map lower ''location_codes'' = ''location_codes''"
  by (simp_all add: lower_def)

lemma plain_relation_names:
  "plain_name ''air_emissions''" "plain_name ''indicator_codes''"
  "plain_name ''substance_types''" "plain_name ''location_codes''"
  by (simp_all add: plain_name_def is_digit_def is_letter_def)

lemma unreserved_relation_names:
  "''air_emissions'' \<notin> set reserved_words" "''indicator_codes'' \<notin> set reserved_words"
  "''substance_types'' \<notin> set reserved_words" "''location_codes'' \<notin> set reserved_words"
  by (simp_all add: reserved_words_def)

lemma as_written_relation_name:
  "as_written names ''air_emissions'' = (if ''air_emissions'' \<in> set names then Some ''air_emissions'' else None)"
  "as_written names ''indicator_codes'' = (if ''indicator_codes'' \<in> set names then Some ''indicator_codes'' else None)"
  "as_written names ''substance_types'' = (if ''substance_types'' \<in> set names then Some ''substance_types'' else None)"
  "as_written names ''location_codes'' = (if ''location_codes'' \<in> set names then Some ''location_codes'' else None)"
  unfolding as_written_def lower_relation_names
  using plain_relation_names unreserved_relation_names
  by simp_all

lemma as_written_relation_names:
  "n \<in> set relation_names \<Longrightarrow> as_written relation_names n = Some n"
  by (auto simp: relation_names_def as_written_relation_name)

lemma validate_loaded_returns:
  assumes "map fst (tables (snd (create_database_tables df db))) = relation_names"
  shows "\<exists>results lg.
           validate_database as_written (snd (create_database_tables df db)) = Inr (results, lg)"
  by (rule validate_database_returns) (simp add: assms as_written_relation_names)

lemma loaded_names_empty_db:
  "map fst (tables (snd (create_database_tables df empty_db))) = relation_names"
  by (simp add: tables_create_database_tables empty_db_def relation_names_def)

lemma loaded_names_orphan_db:
  "map fst (tables (snd (create_database_tables df orphan_db))) = relation_names"
  by (simp add: tables_create_database_tables orphan_db_def relation_names_def)

subsection \<open>The counts of the checks\<close>

lemma comparison_null [simp]: "comparison a b v = SqlNull \<longleftrightarrow> v = SqlNull"
  by (auto simp: comparison_def apply_numeric_def split: sqlval.splits option.splits)

lemma comparison_text [simp]: "comparison TextAffinity TextAffinity = (\<lambda>v. v)"
  by (rule ext) (simp add: comparison_def)

lemma count_distinct_not_in_fact_nulls:
  "count_distinct_not_in conv (filter (\<lambda>x. x \<noteq> SqlNull) fks) ks = count_distinct_not_in conv fks ks"
proof -
  have "filter (\<lambda>x. x \<noteq> SqlNull) (filter P (filter (\<lambda>x. x \<noteq> SqlNull) xs))
        = filter (\<lambda>x. x \<noteq> SqlNull) (filter P xs)" for P and xs :: "sqlval list"
    by (induction xs) auto
  then show ?thesis
    by (simp only: count_distinct_not_in_def)
qed

lemma count_distinct_not_in_null_key:
  assumes "SqlNull \<in> set ks"
  shows "count_distinct_not_in (comparison a b) fks ks = 0"
proof -
  have "comparison a b SqlNull = SqlNull"
    by (simp only: comparison_null)
  with assms have null: "SqlNull \<in> set (map (comparison a b) ks)"
    unfolding set_map by (metis imageI)
  have "not_in (comparison a b x) (map (comparison a b) ks) \<noteq> Some True" if "x \<noteq> SqlNull" for x
    using that null unfolding not_in_def by (auto split: if_splits)
  then have "filter (\<lambda>x. x \<noteq> SqlNull)
               (filter (\<lambda>x. not_in (comparison a b x) (map (comparison a b) ks) = Some True) fks) = []"
    by (auto simp: filter_empty_conv)
  then show ?thesis
    by (simp add: count_distinct_not_in_def)
qed

lemma count_distinct_not_in_text:
  "count_distinct_not_in (\<lambda>v. v) fks ks =
     (if SqlNull \<in> set ks then 0 else card (set fks - set ks - {SqlNull}))"
proof -
  have "set (filter (\<lambda>x. x \<noteq> SqlNull) (filter (\<lambda>x. not_in x ks = Some True) fks))
        = (if SqlNull \<in> set ks then {} else set fks - set ks - {SqlNull})"
    by (auto simp: not_in_def split: if_splits)
  then show ?thesis
    unfolding count_distinct_not_in_def length_remdups_card_conv by simp
qed

lemma count_distinct_not_in_resolved:
  "set fks \<subseteq> set ks \<Longrightarrow> count_distinct_not_in (\<lambda>v. v) fks ks = 0"
proof -
  assume "set fks \<subseteq> set ks"
  then have "set fks - set ks - {SqlNull} = {}"
    by auto
  then show ?thesis
    by (simp add: count_distinct_not_in_text)
qed

lemma select_column_SomeD:
  assumes "select_column db tn c = Some xs"
  shows "\<exists>t. map_of (tables db) tn = Some t" and "\<exists>a. column_affinity db tn c = Some a"
  using assms
  by (auto simp: select_column_def column_affinity_def split: option.splits)

lemma execute_columns:
  assumes "select_column db ''air_emissions'' fact_column = Some fks"
    and "select_column db dim_table dim_column = Some ks"
  shows "\<exists>a b. column_affinity db ''air_emissions'' fact_column = Some a
           \<and> column_affinity db dim_table dim_column = Some b
           \<and> execute db (fact_column, dim_table, dim_column)
               = Some (count_distinct_not_in (comparison a b) fks ks)"
proof -
  from select_column_SomeD [OF assms(1)] obtain a where
    a: "column_affinity db ''air_emissions'' fact_column = Some a"
    by blast
  from select_column_SomeD [OF assms(2)] obtain d b where
    d: "map_of (tables db) dim_table = Some d" and
    b: "column_affinity db dim_table dim_column = Some b"
    by blast
  from assms a d b show ?thesis
    by (simp add: execute_def)
qed

lemma orphan_db_fact: "select_column orphan_db ''air_emissions'' ''oktmo_code'' = Some [SqlText ''45000000'']"
  by (simp add: orphan_db_def select_column_def)

lemma orphan_db_dim: "select_column orphan_db ''location_codes'' ''oktmo_code'' = Some [SqlNull]"
  by (simp add: orphan_db_def select_column_def)

lemma missing_db_fact: "select_column missing_db ''air_emissions'' ''oktmo_code'' = Some [SqlText ''45000000'']"
  by (simp add: missing_db_def select_column_def)

lemma missing_db_dim: "select_column missing_db ''location_codes'' ''oktmo_code'' = Some [SqlText ''46000000'']"
  by (simp add: missing_db_def select_column_def)

text \<open>
  Claim C10: the counts of missing references never count a NULL foreign key of the fact
  table, and when the key column of a dimension table holds a NULL, the check on it
  reports no missing reference, however many keys of the fact table are absent from
  the dimension.

  For a check whose two columns can be read: the count is the count over the fact values
  that are not NULL (the values being compared as the declared types of the two columns
  say); and if the dimension column holds a NULL the count is zero and the check logs
  that all references are correct.
\<close>

theorem null_keys_hide_orphans:
  assumes "select_column db ''air_emissions'' fact_column = Some fks"
    and "select_column db dim_table dim_column = Some ks"
  shows "(\<exists>a b. column_affinity db ''air_emissions'' fact_column = Some a
            \<and> column_affinity db dim_table dim_column = Some b
            \<and> execute db (fact_column, dim_table, dim_column)
                = Some (count_distinct_not_in (comparison a b) (filter (\<lambda>x. x \<noteq> SqlNull) fks) ks))
         \<and> (SqlNull \<in> set ks \<longrightarrow>
              execute db (fact_column, dim_table, dim_column) = Some 0
              \<and> run_check db (check_name, fact_column, dim_table, dim_column) = AllLinksCorrect check_name)"
proof -
  from execute_columns [OF assms] obtain a b where
    a: "column_affinity db ''air_emissions'' fact_column = Some a" and
    b: "column_affinity db dim_table dim_column = Some b" and
    e: "execute db (fact_column, dim_table, dim_column)
          = Some (count_distinct_not_in (comparison a b) fks ks)"
    by blast
  have 1: "\<exists>a b. column_affinity db ''air_emissions'' fact_column = Some a
            \<and> column_affinity db dim_table dim_column = Some b
            \<and> execute db (fact_column, dim_table, dim_column)
                = Some (count_distinct_not_in (comparison a b) (filter (\<lambda>x. x \<noteq> SqlNull) fks) ks)"
    using a b e by (simp add: count_distinct_not_in_fact_nulls)
  have "execute db (fact_column, dim_table, dim_column) = Some 0" if "SqlNull \<in> set ks"
    using that e by (simp add: count_distinct_not_in_null_key)
  then have 2: "SqlNull \<in> set ks \<longrightarrow>
              execute db (fact_column, dim_table, dim_column) = Some 0
              \<and> run_check db (check_name, fact_column, dim_table, dim_column) = AllLinksCorrect check_name"
    by (simp add: run_check_def)
  from 1 2 show ?thesis by blast
qed

theorem null_keys_hide_orphans_witness:
  "select_column orphan_db ''air_emissions'' ''oktmo_code'' = Some [SqlText ''45000000'']
   \<and> select_column orphan_db ''location_codes'' ''oktmo_code'' = Some [SqlNull]
   \<and> SqlText ''45000000'' \<notin> set [SqlNull]
   \<and> execute orphan_db (''oktmo_code'', ''location_codes'', ''oktmo_code'') = Some 0
   \<and> run_check orphan_db (''location_codes'', ''oktmo_code'', ''location_codes'', ''oktmo_code'')
       = AllLinksCorrect ''location_codes''"
proof -
  have "SqlNull \<in> set [SqlNull]"
    by simp
  with null_keys_hide_orphans [OF orphan_db_fact orphan_db_dim, of "''location_codes''"]
  have "execute orphan_db (''oktmo_code'', ''location_codes'', ''oktmo_code'') = Some 0
        \<and> run_check orphan_db (''location_codes'', ''oktmo_code'', ''location_codes'', ''oktmo_code'')
            = AllLinksCorrect ''location_codes''"
    by blast
  with orphan_db_fact orphan_db_dim show ?thesis
    by simp
qed

subsection \<open>The flow\<close>

lemma flow_loaded:
  assumes "read_csv data_file = Some raw_data" and "transform_data tn raw_data = Inr df"
  shows "air_quality_etl_flow reads tn now read_csv data_file db_file run_validation db =
           (case (if run_validation
                  then validate_database reads (snd (create_database_tables df db))
                  else Inr ([], [])) of
              Inl e \<Rightarrow> Inl (e, snd (create_database_tables df db))
            | Inr (results, logged) \<Rightarrow>
                Inr (\<lparr> timestamp = now, input_file = data_file, database_file = db_file,
                       total_records_processed = fst (fst (create_database_tables df db)),
                       table_statistics = snd (fst (create_database_tables df db)),
                       validation_results = results,
                       status = ''COMPLETED'' \<rparr>,
                     snd (create_database_tables df db), logged))"
proof -
  obtain total_records table_stats db' where
    "create_database_tables df db = ((total_records, table_stats), db')"
    by (metis prod.exhaust)
  with assms show ?thesis
    by (simp add: air_quality_etl_flow_def extract_data_def split: sum.splits)
qed

lemma flow_Inr:
  assumes "air_quality_etl_flow reads tn now read_csv data_file db_file run_validation db
             = Inr (s, db', lg)"
  obtains raw_data df where
    "read_csv data_file = Some raw_data" and
    "transform_data tn raw_data = Inr df" and
    "db' = snd (create_database_tables df db)" and
    "total_records_processed s = fst (fst (create_database_tables df db))" and
    "table_statistics s = snd (fst (create_database_tables df db))" and
    "if run_validation then validate_database reads db' = Inr (validation_results s, lg)
     else validation_results s = [] \<and> lg = []" and
    "status s = ''COMPLETED''"
  using assms
  by (auto simp: air_quality_etl_flow_def extract_data_def
           split: sum.splits prod.splits if_splits option.splits)


lemma transform_data_sample: "transform_data py_float [sample_row] = Inr [sample_clean]"
proof -
  have "py_float ''2020'' = Some (Finite 2020)"
    by (simp add: py_float_defs)
  then show ?thesis
    by (simp add: sample_row_def sample_clean_def transform_defs py_float_comma_decimal)
qed

lemma flow_sample_returns:
  assumes "map fst (tables (snd (create_database_tables [sample_clean] db))) = relation_names"
  shows "\<exists>s lg.
           air_quality_etl_flow as_written py_float now (\<lambda>_. Some [sample_row]) data_file db_file
             run_validation db = Inr (s, snd (create_database_tables [sample_clean] db), lg)
           \<and> table_statistics s = snd (fst (create_database_tables [sample_clean] db))"
proof -
  obtain results lg where
    "validate_database as_written (snd (create_database_tables [sample_clean] db)) = Inr (results, lg)"
    using validate_loaded_returns [OF assms] by blast
  then show ?thesis
    unfolding flow_loaded [where read_csv = "\<lambda>_. Some [sample_row]" and raw_data = "[sample_row]",
        OF refl transform_data_sample]
    by (cases run_validation) simp_all
qed


lemma filter_relations_written:
  "filter (\<lambda>(n, _). n \<in> set relation_names) (tables (snd (create_database_tables df db))) =
     [(''air_emissions'', air_emissions_df df), (''indicator_codes'', indicator_table df),
      (''substance_types'', substance_table df), (''location_codes'', location_table df)]"
proof -
  have "filter (\<lambda>(n, _). n \<in> set relation_names) (filter (\<lambda>(n, _). n \<notin> set relation_names) ts) = []"
    for ts :: "(string \<times> table) list"
    by (induction ts) auto
  moreover have "filter (\<lambda>(n, _). n \<in> set relation_names)
      [(''air_emissions'', air_emissions_df df), (''indicator_codes'', indicator_table df),
       (''substance_types'', substance_table df), (''location_codes'', location_table df)] =
      [(''air_emissions'', air_emissions_df df), (''indicator_codes'', indicator_table df),
       (''substance_types'', substance_table df), (''location_codes'', location_table df)]"
    by (simp add: relation_names_def)
  ultimately show ?thesis
    by (simp only: tables_create_database_tables filter_append append_Nil)
qed

lemma stats_create_database_tables:
  "snd (fst (create_database_tables df db)) =
     [(''air_emissions'', length (rows (air_emissions_df df))),
      (''indicator_codes'', length (rows (indicator_table df))),
      (''substance_types'', length (rows (substance_table df))),
      (''location_codes'', length (rows (location_table df)))]"
  by (simp add: create_database_tables_def Let_def indicator_table_def substance_table_def
        location_table_def)

text \<open>
  Claim C4: running the pipeline twice on the same input file and the same output store
  gives the same contents in the four relations: each write replaces the relation of
  that name, it does not append to it, and the row counts after the second run are
  those after the first.

  If a run returns and leaves the file \<open>db'\<close>, then: the tables of the four names in
  \<open>db'\<close> are exactly the four frames computed from the input, whatever the file held
  before, the counts reported are their numbers of rows, and loading the same frame into
  \<open>db'\<close> gives \<open>db'\<close> and the same counts. A second run on \<open>db'\<close> with the same input, at
  whatever time and with or without validation, leaves the file \<open>db'\<close>; when it returns
  it reports the same counts, and when it raises, the error is the one that the validator
  raises on \<open>db'\<close> (on a table of another name that the file holds, whose name the
  statements of the validator cannot read). The second run returns when it validates
  only if the first did.
\<close>

theorem pipeline_idempotent:
  assumes "air_quality_etl_flow reads tn now read_csv data_file db_file run_validation db
             = Inr (s, db', lg)"
  shows "(\<exists>raw_data df.
            read_csv data_file = Some raw_data \<and> transform_data tn raw_data = Inr df
            \<and> create_database_tables df db'
                = ((total_records_processed s, table_statistics s), db')
            \<and> filter (\<lambda>(n, _). n \<in> set relation_names) (tables db') =
                [(''air_emissions'', air_emissions_df df), (''indicator_codes'', indicator_table df),
                 (''substance_types'', substance_table df), (''location_codes'', location_table df)]
            \<and> table_statistics s =
                map (\<lambda>(n, t). (n, length (rows t)))
                  (filter (\<lambda>(n, _). n \<in> set relation_names) (tables db')))
         \<and> (case air_quality_etl_flow reads tn now' read_csv data_file db_file run_validation' db' of
               Inr (s2, db2, lg2) \<Rightarrow>
                 db2 = db' \<and> table_statistics s2 = table_statistics s
                 \<and> total_records_processed s2 = total_records_processed s
             | Inl (e, db2) \<Rightarrow>
                 db2 = db' \<and> run_validation' \<and> validate_database reads db' = Inl e)
         \<and> ((run_validation' \<longrightarrow> run_validation) \<longrightarrow>
              (\<exists>s2 lg2. air_quality_etl_flow reads tn now' read_csv data_file db_file
                           run_validation' db' = Inr (s2, db', lg2)))"
proof -
  from assms obtain raw_data df where
    raw: "read_csv data_file = Some raw_data" and
    df: "transform_data tn raw_data = Inr df" and
    db': "db' = snd (create_database_tables df db)" and
    total: "total_records_processed s = fst (fst (create_database_tables df db))" and
    stats: "table_statistics s = snd (fst (create_database_tables df db))" and
    res: "if run_validation then validate_database reads db' = Inr (validation_results s, lg)
          else validation_results s = [] \<and> lg = []"
    by (rule flow_Inr)
  have again: "snd (create_database_tables df db') = db'"
    unfolding db' by (rule create_database_tables_twice)
  have same: "fst (create_database_tables df db') = fst (create_database_tables df db)"
    by (rule create_database_tables_stats)
  have load: "create_database_tables df db' = ((total_records_processed s, table_statistics s), db')"
    using again same total stats by (simp add: prod_eq_iff)
  have written: "filter (\<lambda>(n, _). n \<in> set relation_names) (tables db') =
      [(''air_emissions'', air_emissions_df df), (''indicator_codes'', indicator_table df),
       (''substance_types'', substance_table df), (''location_codes'', location_table df)]"
    unfolding db' by (rule filter_relations_written)
  have "table_statistics s =
          map (\<lambda>(n, t). (n, length (rows t)))
            (filter (\<lambda>(n, _). n \<in> set relation_names) (tables db'))"
    unfolding written stats stats_create_database_tables by simp
  with raw df load written have 1: "\<exists>raw_data df.
            read_csv data_file = Some raw_data \<and> transform_data tn raw_data = Inr df
            \<and> create_database_tables df db'
                = ((total_records_processed s, table_statistics s), db')
            \<and> filter (\<lambda>(n, _). n \<in> set relation_names) (tables db') =
                [(''air_emissions'', air_emissions_df df), (''indicator_codes'', indicator_table df),
                 (''substance_types'', substance_table df), (''location_codes'', location_table df)]
            \<and> table_statistics s =
                map (\<lambda>(n, t). (n, length (rows t)))
                  (filter (\<lambda>(n, _). n \<in> set relation_names) (tables db'))"
    by blast
  note second = flow_loaded [where read_csv = read_csv and data_file = data_file and now = now'
      and db_file = db_file and run_validation = run_validation' and db = db' and reads = reads,
      OF raw df]
  have 2: "case air_quality_etl_flow reads tn now' read_csv data_file db_file run_validation' db' of
               Inr (s2, db2, lg2) \<Rightarrow>
                 db2 = db' \<and> table_statistics s2 = table_statistics s
                 \<and> total_records_processed s2 = total_records_processed s
             | Inl (e, db2) \<Rightarrow>
                 db2 = db' \<and> run_validation' \<and> validate_database reads db' = Inl e"
    unfolding second load
    by (cases run_validation'; cases "validate_database reads db'") auto
  have 3: "\<exists>s2 lg2. air_quality_etl_flow reads tn now' read_csv data_file db_file
                      run_validation' db' = Inr (s2, db', lg2)"
    if "run_validation' \<longrightarrow> run_validation"
  proof (cases run_validation')
    case True
    with that res have "validate_database reads db' = Inr (validation_results s, lg)"
      by simp
    with True show ?thesis
      unfolding second load by simp
  next
    case False
    then show ?thesis
      unfolding second load by simp
  qed
  from 1 2 3 show ?thesis by blast
qed

text \<open>On a file that already holds the four tables with other contents (\<open>orphan_db\<close>,
  whose location table has one row, of key NULL): after the run the location table has
  the one row of the input, and a second run with validation returns with the same file
  and the same counts.\<close>

theorem pipeline_idempotent_witness:
  "\<exists>s db' lg.
     air_quality_etl_flow as_written py_float ''2024-01-01T00:00:00'' (\<lambda>_. Some [sample_row])
       ''air_emissions.csv'' ''air_emissions.db'' True orphan_db = Inr (s, db', lg)
     \<and> (\<exists>s2 lg2.
          air_quality_etl_flow as_written py_float ''2024-01-02T00:00:00'' (\<lambda>_. Some [sample_row])
            ''air_emissions.csv'' ''air_emissions.db'' True db' = Inr (s2, db', lg2)
          \<and> table_statistics s2 = table_statistics s)
     \<and> table_statistics s =
         [(''air_emissions'', 1), (''indicator_codes'', 1), (''substance_types'', 1),
          (''location_codes'', 1)]
     \<and> select_column orphan_db ''location_codes'' ''oktmo_code'' = Some [SqlNull]
     \<and> select_column db' ''location_codes'' ''oktmo_code'' = Some [SqlText ''45000000'']"
proof -
  let ?db' = "snd (create_database_tables [sample_clean] orphan_db)"
  obtain s lg where run:
    "air_quality_etl_flow as_written py_float ''2024-01-01T00:00:00'' (\<lambda>_. Some [sample_row])
       ''air_emissions.csv'' ''air_emissions.db'' True orphan_db = Inr (s, ?db', lg)"
    and stats: "table_statistics s = snd (fst (create_database_tables [sample_clean] orphan_db))"
    using flow_sample_returns [OF loaded_names_orphan_db] by blast
  have counts: "table_statistics s =
         [(''air_emissions'', 1), (''indicator_codes'', 1), (''substance_types'', 1),
          (''location_codes'', 1)]"
    unfolding stats stats_create_database_tables
    by (simp add: air_emissions_df_def indicator_table_def substance_table_def location_table_def
          indicator_data_def substance_data_def location_data_def drop_duplicates_def)
  have "location_data [sample_clean] = [(Some ''45000000'', Some ''F'', Some ''D'', Some ''R'')]"
    by (simp add: location_data_def drop_duplicates_def sort_values_def sample_clean_def)
  then have new: "select_column ?db' ''location_codes'' ''oktmo_code'' = Some [SqlText ''45000000'']"
    by (simp add: select_location_oktmo_code sql_text_def)
  note twice = pipeline_idempotent [where now' = "''2024-01-02T00:00:00''"
      and run_validation' = True, OF run]
  from twice obtain s2 lg2 where
    second: "air_quality_etl_flow as_written py_float ''2024-01-02T00:00:00'' (\<lambda>_. Some [sample_row])
       ''air_emissions.csv'' ''air_emissions.db'' True ?db' = Inr (s2, ?db', lg2)"
    by auto
  with twice have "table_statistics s2 = table_statistics s"
    by simp
  with run second counts orphan_db_dim new show ?thesis
    by blast
qed

text \<open>The error of the second run, on a file that holds a table named \<open>my table\<close>
  beside the four: a run without validation returns, and a run with validation on the
  file it leaves loads the same four tables again and raises in the validator, at the
  first statement on a name with a blank in it.\<close>

lemma table_names_blank_name_db:
  "table_names (snd (create_database_tables df blank_name_db)) =
     [''air_emissions'', ''indicator_codes'', ''location_codes'', ''my table'', ''substance_types'']"
  by (simp add: table_names_def tables_create_database_tables blank_name_db_def relation_names_def)

lemma as_written_blank_name: "as_written names ''my table'' = None"
  by (simp add: as_written_def plain_name_def is_digit_def is_letter_def)

lemma validate_blank_name_db:
  "validate_database as_written (snd (create_database_tables df blank_name_db))
     = Inl (OperationalError ''my table'')"
proof -
  let ?db = "snd (create_database_tables df blank_name_db)"
  have names: "map fst (tables ?db)
      = [''my table'', ''air_emissions'', ''indicator_codes'', ''substance_types'', ''location_codes'']"
    by (simp add: tables_create_database_tables blank_name_db_def relation_names_def)
  have "map_of (tables ?db) n
          = map_of [(''air_emissions'', air_emissions_df df), (''indicator_codes'', indicator_table df),
                    (''substance_types'', substance_table df), (''location_codes'', location_table df)] n"
    if "n \<in> set relation_names" for n
    using that by (rule map_of_tables_written)
  then have
    "inspect as_written ?db ''air_emissions'' = Inr (report (air_emissions_df df))"
    "inspect as_written ?db ''indicator_codes'' = Inr (report (indicator_table df))"
    "inspect as_written ?db ''location_codes'' = Inr (report (location_table df))"
    "inspect as_written ?db ''my table'' = Inl (OperationalError ''my table'')"
    unfolding inspect_def names as_written_relation_name as_written_blank_name
    by (simp_all add: relation_names_def)
  then show ?thesis
    by (simp add: validate_database_def table_names_blank_name_db)
qed

lemma second_run_raises_on_blank_name:
  "(\<exists>s lg. air_quality_etl_flow as_written py_float now (\<lambda>_. Some [sample_row]) data_file db_file
              False blank_name_db
            = Inr (s, snd (create_database_tables [sample_clean] blank_name_db), lg))
   \<and> air_quality_etl_flow as_written py_float now2 (\<lambda>_. Some [sample_row]) data_file db_file
       True (snd (create_database_tables [sample_clean] blank_name_db))
     = Inl (OperationalError ''my table'', snd (create_database_tables [sample_clean] blank_name_db))"
  unfolding flow_loaded [where read_csv = "\<lambda>_. Some [sample_row]" and raw_data = "[sample_row]",
      OF refl transform_data_sample] create_database_tables_twice
  by (simp add: validate_blank_name_db)

subsection \<open>The location code\<close>

lemma convert_row_oktmo_code_update:
  "convert_row tn (oktmo_code_update g r) = map_sum id (oktmo_code_update g) (convert_row tn r)"
  by (simp add: convert_row_def split: sum.splits)

lemma compute_oktmo_code_update:
  "compute tn (map (oktmo_code_update g) rs) = map_sum id (map (oktmo_code_update g)) (compute tn rs)"
  by (induction rs) (auto simp: convert_row_oktmo_code_update split: sum.splits)

lemma dropna_oktmo_code_update:
  "dropna (map (oktmo_code_update g) df) = map (oktmo_code_update g) (dropna df)"
  by (simp add: dropna_def filter_map comp_def)

lemma transform_data_oktmo_code_update:
  "transform_data tn (map (oktmo_code_update g) df)
     = map_sum id (map (oktmo_code_update g)) (transform_data tn df)"
  by (simp add: transform_data_def dropna_oktmo_code_update compute_oktmo_code_update
        filter_map comp_def split: sum.splits)

text \<open>
  Claim C8, as amended: a record of the persisted fact relation has the location code
  of the cleaned row it comes from, NULL when that row has none; the cleaning keeps or
  drops a row whatever its location code, so that rows with a missing location code do
  reach the fact table.

  Replacing the location codes of the input by any others (by the missing value, say)
  changes nothing in the transformer's result but that column; and the location column
  of the fact table is the location column of the cleaned frame.
\<close>

theorem fact_location_code_follows_input:
  "transform_data tn (map (oktmo_code_update g) df)
     = map_sum id (map (oktmo_code_update g)) (transform_data tn df)
   \<and> select_column (snd (create_database_tables df_final db)) ''air_emissions'' ''oktmo_code''
       = Some (map (\<lambda>r. sql_text (oktmo_code r)) df_final)"
proof
  show "transform_data tn (map (oktmo_code_update g) df)
          = map_sum id (map (oktmo_code_update g)) (transform_data tn df)"
    by (rule transform_data_oktmo_code_update)
next
  show "select_column (snd (create_database_tables df_final db)) ''air_emissions'' ''oktmo_code''
          = Some (map (\<lambda>r. sql_text (oktmo_code r)) df_final)"
    by (rule select_fact_oktmo_code)
qed

text \<open>Claim C8 as it is written fails on the sample row without its location code: the
  flow returns and the fact table has one record, whose location code is NULL.\<close>

theorem missing_location_code_reaches_fact_table:
  "(case air_quality_etl_flow as_written py_float ''2024-01-01T00:00:00''
           (\<lambda>_. Some [sample_row\<lparr>oktmo_code := None\<rparr>])
           ''air_emissions.csv'' ''air_emissions.db'' False empty_db of
      Inl e \<Rightarrow> None
    | Inr (s, db', lg) \<Rightarrow> select_column db' ''air_emissions'' ''oktmo_code'') = Some [SqlNull]"
proof -
  have "transform_data py_float [sample_row\<lparr>oktmo_code := None\<rparr>] =
          map_sum id (map (oktmo_code_update (\<lambda>_. None))) (transform_data py_float [sample_row])"
    using transform_data_oktmo_code_update [of py_float "\<lambda>_. None" "[sample_row]"] by simp
  then obtain r where r: "transform_data py_float [sample_row\<lparr>oktmo_code := None\<rparr>] = Inr [r]"
    and "oktmo_code r = None"
    by (simp add: transform_data_sample)
  have "select_column (snd (create_database_tables [r] empty_db)) ''air_emissions'' ''oktmo_code''
       = Some (map (\<lambda>r. sql_text (oktmo_code r)) [r])"
    by (rule select_fact_oktmo_code)
  with \<open>oktmo_code r = None\<close> show ?thesis
    by (simp add: flow_loaded [where raw_data = "[sample_row\<lparr>oktmo_code := None\<rparr>]", OF _ r]
          sql_text_def)
qed

text \<open>A run on the same input leaves a NULL in the key column of the location relation:
  this is how a dimension comes to hold a NULL key.\<close>

lemma null_location_key_after_load:
  "(case air_quality_etl_flow as_written py_float ''2024-01-01T00:00:00''
           (\<lambda>_. Some [sample_row\<lparr>oktmo_code := None\<rparr>])
           ''air_emissions.csv'' ''air_emissions.db'' True empty_db of
      Inl e \<Rightarrow> None
    | Inr (s, db', lg) \<Rightarrow> select_column db' ''location_codes'' ''oktmo_code'') = Some [SqlNull]"
proof -
  have "transform_data py_float [sample_row\<lparr>oktmo_code := None\<rparr>] =
          map_sum id (map (oktmo_code_update (\<lambda>_. None))) (transform_data py_float [sample_row])"
    using transform_data_oktmo_code_update [of py_float "\<lambda>_. None" "[sample_row]"] by simp
  then obtain r where r: "transform_data py_float [sample_row\<lparr>oktmo_code := None\<rparr>] = Inr [r]"
    and "oktmo_code r = None"
    by (simp add: transform_data_sample)
  then have "location_data [r] = [(None, municipal_formation r, municipal_district r, region r)]"
    by (simp add: location_data_def drop_duplicates_def sort_values_def)
  moreover obtain results lg where
    "validate_database as_written (snd (create_database_tables [r] empty_db)) = Inr (results, lg)"
    using validate_loaded_returns [OF loaded_names_empty_db] by blast
  ultimately show ?thesis
    by (simp add: flow_loaded [where raw_data = "[sample_row\<lparr>oktmo_code := None\<rparr>]", OF _ r]
          select_location_oktmo_code sql_text_def)
qed

subsection \<open>The validator on the file of the loader and on other files\<close>

lemma map_of_loaded:
  "map_of (tables (snd (create_database_tables df db))) ''air_emissions'' = Some (air_emissions_df df)"
  "map_of (tables (snd (create_database_tables df db))) ''indicator_codes'' = Some (indicator_table df)"
  "map_of (tables (snd (create_database_tables df db))) ''substance_types'' = Some (substance_table df)"
  "map_of (tables (snd (create_database_tables df db))) ''location_codes'' = Some (location_table df)"
  by (simp_all add: map_of_tables_written relation_names_def)

lemma select_fact_loaded:
  "select_column (snd (create_database_tables df db)) ''air_emissions'' ''code''
     = Some (map (\<lambda>r. sql_text (code r)) df)"
  "select_column (snd (create_database_tables df db)) ''air_emissions'' ''substance''
     = Some (map (\<lambda>r. sql_text (substance r)) df)"
  by (simp_all add: select_column_def map_of_loaded air_emissions_df_def comp_def)

lemma select_dimension_loaded:
  "select_column (snd (create_database_tables df db)) ''indicator_codes'' ''code''
     = Some (map (\<lambda>(c, i). sql_text c) (indicator_data df))"
  "select_column (snd (create_database_tables df db)) ''substance_types'' ''substance''
     = Some (map (\<lambda>(s, t). sql_text s) (substance_data df))"
  by (simp_all add: select_column_def map_of_loaded indicator_table_def substance_table_def
        comp_def split_def)

lemma column_affinity_loaded:
  "column_affinity (snd (create_database_tables df db)) ''air_emissions'' ''code'' = Some TextAffinity"
  "column_affinity (snd (create_database_tables df db)) ''air_emissions'' ''substance'' = Some TextAffinity"
  "column_affinity (snd (create_database_tables df db)) ''air_emissions'' ''oktmo_code'' = Some TextAffinity"
  "column_affinity (snd (create_database_tables df db)) ''indicator_codes'' ''code'' = Some TextAffinity"
  "column_affinity (snd (create_database_tables df db)) ''substance_types'' ''substance'' = Some TextAffinity"
  "column_affinity (snd (create_database_tables df db)) ''location_codes'' ''oktmo_code'' = Some TextAffinity"
  by (simp_all add: column_affinity_def map_of_loaded air_emissions_df_def indicator_table_def
        substance_table_def location_table_def)

lemma keys_loaded:
  "set (map (\<lambda>r. sql_text (code r)) df) \<subseteq> set (map (\<lambda>(c, i). sql_text c) (indicator_data df))"
  "set (map (\<lambda>r. sql_text (substance r)) df) \<subseteq> set (map (\<lambda>(s, t). sql_text s) (substance_data df))"
  "set (map (\<lambda>r. sql_text (oktmo_code r)) df) \<subseteq> set (map (\<lambda>(k, f, d, g). sql_text k) (location_data df))"
proof -
  show "set (map (\<lambda>r. sql_text (code r)) df) \<subseteq> set (map (\<lambda>(c, i). sql_text c) (indicator_data df))"
    by (force simp: indicator_data_def)
  have "set (map fst (substance_data df)) = set (map fst (map (\<lambda>r. (substance r, source_type r)) df))"
    unfolding substance_data_def set_map set_sort_values
    using keys_drop_duplicates [of fst "map (\<lambda>r. (substance r, source_type r)) df"]
    by (simp only: set_map)
  then have "substance r \<in> fst ` set (substance_data df)" if "r \<in> set df" for r
    using that by force
  then show "set (map (\<lambda>r. sql_text (substance r)) df) \<subseteq> set (map (\<lambda>(s, t). sql_text s) (substance_data df))"
    by (force simp: split_def)
  show "set (map (\<lambda>r. sql_text (oktmo_code r)) df) \<subseteq> set (map (\<lambda>(k, f, d, g). sql_text k) (location_data df))"
    by (force simp: location_data_def)
qed

text \<open>On the file that the loader leaves, every key of the fact table is in its
  dimension table, with or without NULLs, and the three checks log that all links are
  correct: in a run of the flow the validator never sees a missing reference.\<close>

lemma loaded_checks_all_correct:
  "map (run_check (snd (create_database_tables df db))) checks =
     [AllLinksCorrect ''indicator_codes'', AllLinksCorrect ''substance_types'',
      AllLinksCorrect ''location_codes'']"
  by (simp add: checks_def run_check_def execute_def map_of_loaded select_fact_loaded
        select_dimension_loaded select_fact_oktmo_code select_location_oktmo_code
        column_affinity_loaded keys_loaded [THEN count_distinct_not_in_resolved]
      del: set_map)

text \<open>On a file where a fact key is absent from the dimension, and the dimension has no
  NULL key, the check counts it and logs the count.\<close>

lemma missing_db_check:
  "run_check missing_db (''location_codes'', ''oktmo_code'', ''location_codes'', ''oktmo_code'')
     = MissingLinks ''location_codes'' 1"
  by (simp add: run_check_def execute_def select_column_def column_affinity_def missing_db_def
        count_distinct_not_in_def not_in_def)

text \<open>A text of the fact table is found in a numeric key column when it reads as the
  number there; and a key column that the dimension table does not have is read as the
  column of the fact row itself, so that nothing is counted.\<close>

lemma sqlite_number_45000000: "sqlite_number ''45000000'' = Some 45000000"
  by (simp add: sqlite_number_def py_float_defs)

lemma numeric_key_db_check:
  "execute numeric_key_db (''oktmo_code'', ''location_codes'', ''oktmo_code'') = Some 0"
  by (simp add: execute_def select_column_def column_affinity_def numeric_key_db_def
        count_distinct_not_in_def not_in_def comparison_def apply_numeric_def
        sqlite_number_45000000)

lemma keyless_db_check:
  "execute keyless_db (''oktmo_code'', ''location_codes'', ''oktmo_code'') = Some 0"
  by (simp add: execute_def select_column_def column_affinity_def keyless_db_def
        count_correlated_def not_in_def)

lemma inspect_all_reports:
  assumes "\<forall>n \<in> set names. reads (map fst (tables db)) n = Some n \<and> map_of (tables db) n \<noteq> None"
  shows "inspect_all reads db names = Inr (map (\<lambda>n. (n, report (the (map_of (tables db) n)))) names)"
  using assms
  by (induction names) (auto simp: inspect_def)

text \<open>
  Claim C3: the validator computes three counts of missing references: the distinct
  codes of the fact relation absent from the indicator relation, its distinct substances
  absent from the substance relation, and its distinct location codes absent from the
  location relation; a nonzero count is only reported as a warning.

  The validator run on the file \<open>orphan_db\<close>: the one location code of the fact table,
  45000000, is absent from the location table, whose one key is NULL; the count of the
  check is 0, and the validator logs for each of the three checks that all links are
  correct.
\<close>

theorem validator_misses_orphan_behind_null_key:
  "select_column orphan_db ''air_emissions'' ''oktmo_code'' = Some [SqlText ''45000000'']
   \<and> select_column orphan_db ''location_codes'' ''oktmo_code'' = Some [SqlNull]
   \<and> execute orphan_db (''oktmo_code'', ''location_codes'', ''oktmo_code'') = Some 0
   \<and> map_sum id snd (validate_database as_written orphan_db)
       = Inr [AllLinksCorrect ''indicator_codes'', AllLinksCorrect ''substance_types'',
              AllLinksCorrect ''location_codes'']"
proof -
  have names: "map fst (tables orphan_db) = relation_names"
    by (simp add: orphan_db_def relation_names_def)
  have sorted: "table_names orphan_db
      = [''air_emissions'', ''indicator_codes'', ''location_codes'', ''substance_types'']"
    by (simp add: table_names_def orphan_db_def)
  have "set (table_names orphan_db) = set relation_names"
    by (simp add: table_names_def names)
  moreover have "\<forall>n \<in> set relation_names. map_of (tables orphan_db) n \<noteq> None"
    by (simp add: relation_names_def orphan_db_def)
  ultimately have "\<forall>n \<in> set (table_names orphan_db).
          as_written (map fst (tables orphan_db)) n = Some n \<and> map_of (tables orphan_db) n \<noteq> None"
    unfolding names using as_written_relation_names by blast
  then have reports: "inspect_all as_written orphan_db (table_names orphan_db)
      = Inr (map (\<lambda>n. (n, report (the (map_of (tables orphan_db) n)))) (table_names orphan_db))"
    by (rule inspect_all_reports)
  have nonempty: "filter (\<lambda>(n, r). row_count r = 0)
      (map (\<lambda>n. (n, report (the (map_of (tables orphan_db) n)))) (table_names orphan_db)) = []"
    unfolding sorted by (simp add: orphan_db_def report_def)
  have logged: "map (run_check orphan_db) checks =
      [AllLinksCorrect ''indicator_codes'', AllLinksCorrect ''substance_types'',
       AllLinksCorrect ''location_codes'']"
    by (simp add: checks_def run_check_def execute_def select_column_def column_affinity_def
          orphan_db_def count_distinct_not_in_def not_in_def)
  have count: "execute orphan_db (''oktmo_code'', ''location_codes'', ''oktmo_code'') = Some 0"
    by (simp add: execute_def select_column_def column_affinity_def orphan_db_def
          count_distinct_not_in_def not_in_def)
  have "map_sum id snd (validate_database as_written orphan_db)
       = Inr [AllLinksCorrect ''indicator_codes'', AllLinksCorrect ''substance_types'',
              AllLinksCorrect ''location_codes'']"
    unfolding validate_database_def reports
    by (simp add: nonempty logged)
  with orphan_db_fact orphan_db_dim count show ?thesis
    by simp
qed

end
